theory Spec2Isabelle
  imports Main
begin

section \<open>JavaScript values used by the server code\<close>

text \<open>
  Documents and request bodies are JavaScript objects whose keys may be missing, so every
  field is an option (\<open>None\<close> is \<open>undefined\<close>). Numbers are integers, dates are
  milliseconds since the epoch, strings are ASCII. Values are taken after schema casting
  (a request value \<open>"1"\<close> for a Number path is the number 1, strings are already trimmed).
\<close>

definition truthy_str :: "string option \<Rightarrow> bool" where
  "truthy_str v = (case v of None \<Rightarrow> False | Some s \<Rightarrow> s \<noteq> [])"

definition truthy_num :: "int option \<Rightarrow> bool" where
  "truthy_num v = (case v of None \<Rightarrow> False | Some n \<Rightarrow> n \<noteq> 0)"

definition truthy_date :: "int option \<Rightarrow> bool" where
  "truthy_date v = (v \<noteq> None)"

text \<open>\<open>a || b\<close> on strings, numbers and dates.\<close>

definition or_str :: "string option \<Rightarrow> string option \<Rightarrow> string option" where
  "or_str a b = (if truthy_str a then a else b)"

definition or_num :: "int option \<Rightarrow> int option \<Rightarrow> int option" where
  "or_num a b = (if truthy_num a then a else b)"

definition or_date :: "int option \<Rightarrow> int option \<Rightarrow> int option" where
  "or_date a b = (if truthy_date a then a else b)"

section \<open>Strings and numbers\<close>

definition digit_char :: "nat \<Rightarrow> char" where
  "digit_char n = ''0123456789'' ! n"

text \<open>\<open>Number.prototype.toString()\<close> of an integer: its decimal digits.\<close>

function toString_nat :: "nat \<Rightarrow> string" where
  "toString_nat n =
     (if n < 10 then [digit_char n] else toString_nat (n div 10) @ [digit_char (n mod 10)])"
  by pat_completeness auto
termination
  by (relation "measure id") auto

declare toString_nat.simps [simp del]

definition toString :: "int \<Rightarrow> string" where
  "toString i = (if i < 0 then CHR ''-'' # toString_nat (nat (- i)) else toString_nat (nat i))"

text \<open>\<open>s.padStart(n, c)\<close> with a one-character pad, and \<open>s.slice(-n)\<close>.\<close>

definition padStart :: "nat \<Rightarrow> char \<Rightarrow> string \<Rightarrow> string" where
  "padStart n c s = replicate (n - length s) c @ s"

definition slice_last :: "nat \<Rightarrow> string \<Rightarrow> string" where
  "slice_last n s = drop (length s - n) s"

text \<open>
  \<open>parseInt(s, 10)\<close>: leading white space is skipped, an optional sign is read, then
  the longest run of decimal digits; without a digit the result is \<open>NaN\<close> (\<open>None\<close>).
\<close>

definition isWhiteSpace :: "char \<Rightarrow> bool" where
  "isWhiteSpace ch =
     (ch \<in> set [CHR '' '', CHR 0x09, CHR 0x0A, CHR 0x0B, CHR 0x0C, CHR 0x0D])"

definition digit_val :: "char \<Rightarrow> nat option" where
  "digit_val = map_of (zip ''0123456789'' [0, 1, 2, 3, 4, 5, 6, 7, 8, 9])"

fun digits_prefix :: "string \<Rightarrow> nat list" where
  "digits_prefix [] = []"
| "digits_prefix (ch # s) =
     (case digit_val ch of None \<Rightarrow> [] | Some d \<Rightarrow> d # digits_prefix s)"

definition digits_value :: "nat list \<Rightarrow> nat" where
  "digits_value ds = foldl (\<lambda>acc d. 10 * acc + d) 0 ds"

definition parseInt :: "string \<Rightarrow> int option" where
  "parseInt s =
     (let s1 = dropWhile isWhiteSpace s;
          neg = (case s1 of [] \<Rightarrow> False | ch # _ \<Rightarrow> ch = CHR ''-'');
          s2 = (case s1 of [] \<Rightarrow> []
                | ch # rest \<Rightarrow> if ch = CHR ''-'' \<or> ch = CHR ''+'' then rest else s1);
          ds = digits_prefix s2
      in if ds = [] then None
         else Some (if neg then - int (digits_value ds) else int (digits_value ds)))"

text \<open>A JavaScript number that may be \<open>NaN\<close>.\<close>

datatype number = Num int | NaN

section \<open>Dates\<close>

text \<open>
  A \<open>Date\<close> is its time value: milliseconds since 1970-01-01T00:00:00Z. The calendar
  fields are those of the proleptic Gregorian calendar, as for the \<open>Date\<close> object; they
  are computed from the day number counted in 400-year eras that start on 1 March.
  The server's time zone is a fixed offset \<open>tz\<close> in minutes east of UTC (no daylight
  saving), so local fields are the UTC fields of \<open>LocalTime tz t\<close>.
\<close>

definition msPerDay :: int where
  "msPerDay = 86400000"

definition Day :: "int \<Rightarrow> int" where
  "Day t = t div msPerDay"

definition TimeWithinDay :: "int \<Rightarrow> int" where
  "TimeWithinDay t = t mod msPerDay"

definition dayOfEra :: "int \<Rightarrow> int" where
  "dayOfEra t = (Day t + 719468) mod 146097"

definition yearOfEra :: "int \<Rightarrow> int" where
  "yearOfEra t = (dayOfEra t - dayOfEra t div 1460 + dayOfEra t div 36524
                   - dayOfEra t div 146096) div 365"

definition dayOfMarchYear :: "int \<Rightarrow> int" where
  "dayOfMarchYear t =
     dayOfEra t - (365 * yearOfEra t + yearOfEra t div 4 - yearOfEra t div 100)"

definition marchMonth :: "int \<Rightarrow> int" where
  "marchMonth t = (5 * dayOfMarchYear t + 2) div 153"

text \<open>\<open>MonthFromTime\<close> is 0 for January, as \<open>getMonth()\<close> returns it.\<close>

definition MonthFromTime :: "int \<Rightarrow> int" where
  "MonthFromTime t = (if marchMonth t < 10 then marchMonth t + 2 else marchMonth t - 10)"

definition DateFromTime :: "int \<Rightarrow> int" where
  "DateFromTime t = dayOfMarchYear t - (153 * marchMonth t + 2) div 5 + 1"

definition YearFromTime :: "int \<Rightarrow> int" where
  "YearFromTime t = yearOfEra t + ((Day t + 719468) div 146097) * 400
                     + (if MonthFromTime t \<le> 1 then 1 else 0)"

definition LocalTime :: "int \<Rightarrow> int \<Rightarrow> int" where
  "LocalTime tz t = t + tz * 60000"

text \<open>\<open>d.setHours(0, 0, 0, 0)\<close>: the start of \<open>d\<close>'s local day.\<close>

definition setHours0 :: "int \<Rightarrow> int \<Rightarrow> int" where
  "setHours0 tz t = t - TimeWithinDay (LocalTime tz t)"

text \<open>\<open>d.setDate(d.getDate() + 1)\<close>: the same local time on the next day.\<close>

definition nextDay :: "int \<Rightarrow> int" where
  "nextDay t = t + msPerDay"

text \<open>\<open>d.toISOString()\<close>, always in UTC (years 0 to 9999).\<close>

definition toISOString :: "int \<Rightarrow> string" where
  "toISOString t =
     padStart 4 CHR ''0'' (toString (YearFromTime t)) @ ''-'' @
     padStart 2 CHR ''0'' (toString (MonthFromTime t + 1)) @ ''-'' @
     padStart 2 CHR ''0'' (toString (DateFromTime t)) @ ''T'' @
     padStart 2 CHR ''0'' (toString (TimeWithinDay t div 3600000)) @ '':'' @
     padStart 2 CHR ''0'' (toString (TimeWithinDay t div 60000 mod 60)) @ '':'' @
     padStart 2 CHR ''0'' (toString (TimeWithinDay t div 1000 mod 60)) @ ''.'' @
     padStart 3 CHR ''0'' (toString (TimeWithinDay t mod 1000)) @ ''Z''"

section \<open>The Booking collection (models/Booking.js)\<close>

record booking_data =
  fullName :: "string option"
  phone :: "string option"
  hotelName :: "string option"
  hotelID :: "int option"
  roomCategoryID :: "string option"
  roomCategoryName :: "string option"
  roomNumberID :: "string option"
  roomNumberName :: "string option"
  roomPrice :: "int option"
  checkInDate :: "int option"
  checkOutDate :: "int option"
  nights :: "int option"
  totalBill :: "int option"
  advancePayment :: "int option"
  duePayment :: "int option"
  bookedBy :: "string option"
  bookedByID :: "string option"
  bookingID :: "string option"
  bookingNo :: "string option"
  serialNo :: "int option"
  reference :: "string option"
  statusID :: "int option"
  canceledBy :: "string option"
  reason :: "string option"

text \<open>
  A stored booking is the data plus the identifier \<open>_id\<close> and the \<open>createdAt\<close> timestamp.
  The collection is the list of stored bookings in insertion order (ascending \<open>_id\<close>).
  The optional paths of the schema that no operation below reads (email, note, payment
  method, kitchen and extra-bed bills, ...) are left out.
\<close>

record booking = booking_data +
  bid :: string
  createdAt :: int

type_synonym bookings = "booking list"

definition no_fields :: booking_data where
  "no_fields = \<lparr> fullName = None, phone = None, hotelName = None, hotelID = None,
     roomCategoryID = None, roomCategoryName = None, roomNumberID = None,
     roomNumberName = None, roomPrice = None, checkInDate = None, checkOutDate = None,
     nights = None, totalBill = None, advancePayment = None, duePayment = None,
     bookedBy = None, bookedByID = None, bookingID = None, bookingNo = None,
     serialNo = None, reference = None, statusID = None, canceledBy = None,
     reason = None \<rparr>"

section \<open>Interval overlap detector (controllers/bookingController.js)\<close>

text \<open>
  The query filter of \<open>checkBookingOverlap\<close>: equality on the three identifiers,
  \<open>statusID: {$ne: 255}\<close>, \<open>checkInDate: {$lt: newCheckOut}\<close>,
  \<open>checkOutDate: {$gt: newCheckIn}\<close>, and \<open>_id: {$ne: excludeBookingId}\<close> when
  \<open>excludeBookingId\<close> is truthy. A comparison on a missing date does not match.
\<close>

definition overlap_filter ::
  "int option \<Rightarrow> string option \<Rightarrow> string option \<Rightarrow> int \<Rightarrow> int \<Rightarrow> string option
     \<Rightarrow> booking \<Rightarrow> bool" where
  "overlap_filter hID roomID catID newCheckIn newCheckOut excludeBookingId b =
     (hotelID b = hID \<and> roomNumberID b = roomID \<and> roomCategoryID b = catID \<and>
      statusID b \<noteq> Some 255 \<and>
      (case checkInDate b of None \<Rightarrow> False | Some ci \<Rightarrow> ci < newCheckOut) \<and>
      (case checkOutDate b of None \<Rightarrow> False | Some co \<Rightarrow> co > newCheckIn) \<and>
      (if truthy_str excludeBookingId then Some (bid b) \<noteq> excludeBookingId else True))"

text \<open>\<open>Booking.findOne(filter)\<close>: the first stored booking matching the filter.\<close>

definition checkBookingOverlap ::
  "bookings \<Rightarrow> int option \<Rightarrow> string option \<Rightarrow> string option \<Rightarrow> int \<Rightarrow> int
     \<Rightarrow> string option \<Rightarrow> booking option" where
  "checkBookingOverlap store hID roomID catID checkIn checkOut excludeBookingId =
     find (overlap_filter hID roomID catID checkIn checkOut excludeBookingId) store"

section \<open>Sequence generators (controllers/bookingController.js)\<close>

text \<open>
  \<open>generateSerialNo\<close>: \<open>Booking.findOne().sort({_id: -1})\<close> is the booking inserted
  last; a last booking without \<open>serialNo\<close> gives \<open>undefined + 1\<close>, that is \<open>NaN\<close>.
\<close>

definition generateSerialNo :: "bookings \<Rightarrow> number" where
  "generateSerialNo store =
     (case store of
        [] \<Rightarrow> Num 1
      | _ # _ \<Rightarrow> (case serialNo (last store) of None \<Rightarrow> NaN | Some n \<Rightarrow> Num (n + 1)))"

text \<open>The prefix \<open>`${year}${month}${day}`\<close> from the local date of \<open>new Date()\<close>.\<close>

definition datePrefix :: "int \<Rightarrow> int \<Rightarrow> string" where
  "datePrefix tz now =
     slice_last 2 (toString (YearFromTime (LocalTime tz now))) @
     padStart 2 CHR ''0'' (toString (MonthFromTime (LocalTime tz now) + 1)) @
     padStart 2 CHR ''0'' (toString (DateFromTime (LocalTime tz now)))"

text \<open>\<open>Booking.find({bookingNo: {$regex: `^${datePrefix}`}})\<close>; the prefix is all digits.\<close>

definition matches_prefix :: "string \<Rightarrow> booking \<Rightarrow> bool" where
  "matches_prefix p b =
     (case bookingNo b of None \<Rightarrow> False | Some no \<Rightarrow> take (length p) no = p)"

text \<open>The body of the \<open>forEach\<close> loop, on the running \<open>maxSerialNo\<close>.\<close>

definition scanSerial :: "int \<Rightarrow> booking \<Rightarrow> int" where
  "scanSerial maxSerialNo b =
     (case bookingNo b of
        None \<Rightarrow> maxSerialNo
      | Some no \<Rightarrow>
          if no = [] then maxSerialNo
          else (case parseInt (slice_last 2 no) of
                  None \<Rightarrow> maxSerialNo
                | Some serial \<Rightarrow> if serial > maxSerialNo then serial else maxSerialNo))"

definition maxSerialNo :: "string \<Rightarrow> bookings \<Rightarrow> int" where
  "maxSerialNo p store = foldl scanSerial 0 (filter (matches_prefix p) store)"

definition generateBookingNo :: "int \<Rightarrow> int \<Rightarrow> bookings \<Rightarrow> string" where
  "generateBookingNo tz now store =
     datePrefix tz now @
     padStart 2 CHR ''0'' (toString (maxSerialNo (datePrefix tz now) store + 1))"

section \<open>Schema validation and the save hook (models/Booking.js)\<close>

datatype exn = ValidationError "string list" | DuplicateKey string | CastError string

definition required_str :: "string \<Rightarrow> string option \<Rightarrow> string list" where
  "required_str path v = (if truthy_str v then [] else [path])"

definition required_num :: "string \<Rightarrow> int option \<Rightarrow> string list" where
  "required_num path v = (if v = None then [path] else [])"

definition min_num :: "string \<Rightarrow> int \<Rightarrow> int option \<Rightarrow> string list" where
  "min_num path m v = (case v of None \<Rightarrow> [] | Some n \<Rightarrow> if n < m then [path] else [])"

definition enum_num :: "string \<Rightarrow> int list \<Rightarrow> int option \<Rightarrow> string list" where
  "enum_num path allowed v =
     (case v of None \<Rightarrow> [] | Some n \<Rightarrow> if n \<in> set allowed then [] else [path])"

text \<open>
  The two function validators read a sibling path through \<open>this\<close>; a comparison with
  \<open>undefined\<close> is false.
  \<^item> \<open>checkOutDate\<close>: \<open>value > this.checkInDate\<close>
  \<^item> \<open>advancePayment\<close>: \<open>value <= this.totalBill\<close>
\<close>

definition checkOutDate_validator :: "booking_data \<Rightarrow> int \<Rightarrow> bool" where
  "checkOutDate_validator this v =
     (case checkInDate this of None \<Rightarrow> False | Some ci \<Rightarrow> v > ci)"

definition advancePayment_validator :: "booking_data \<Rightarrow> int \<Rightarrow> bool" where
  "advancePayment_validator this v =
     (case totalBill this of None \<Rightarrow> False | Some tb \<Rightarrow> v \<le> tb)"

definition custom :: "string \<Rightarrow> (int \<Rightarrow> bool) \<Rightarrow> int option \<Rightarrow> string list" where
  "custom path ok v = (case v of None \<Rightarrow> [] | Some n \<Rightarrow> if ok n then [] else [path])"

text \<open>The single schema default that matters here: \<open>statusID\<close> defaults to 1.\<close>

definition apply_defaults :: "booking_data \<Rightarrow> booking_data" where
  "apply_defaults d = (if statusID d = None then d\<lparr>statusID := Some 1\<rparr> else d)"

text \<open>
  Document validation (\<open>create\<close>, \<open>save\<close>): every path is checked and \<open>this\<close> is the
  document. The result lists the failing paths.
\<close>

definition validate_document :: "booking_data \<Rightarrow> string list" where
  "validate_document d =
     required_str ''fullName'' (fullName d) @
     required_str ''phone'' (phone d) @
     required_str ''hotelName'' (hotelName d) @
     required_num ''hotelID'' (hotelID d) @
     required_str ''roomCategoryID'' (roomCategoryID d) @
     required_str ''roomCategoryName'' (roomCategoryName d) @
     required_str ''roomNumberID'' (roomNumberID d) @
     required_str ''roomNumberName'' (roomNumberName d) @
     required_num ''roomPrice'' (roomPrice d) @ min_num ''roomPrice'' 0 (roomPrice d) @
     required_num ''checkInDate'' (checkInDate d) @
     required_num ''checkOutDate'' (checkOutDate d) @
     custom ''checkOutDate'' (checkOutDate_validator d) (checkOutDate d) @
     required_num ''nights'' (nights d) @ min_num ''nights'' 1 (nights d) @
     required_num ''totalBill'' (totalBill d) @ min_num ''totalBill'' 0 (totalBill d) @
     required_num ''advancePayment'' (advancePayment d) @
     min_num ''advancePayment'' 0 (advancePayment d) @
     custom ''advancePayment'' (advancePayment_validator d) (advancePayment d) @
     required_num ''duePayment'' (duePayment d) @ min_num ''duePayment'' 0 (duePayment d) @
     required_str ''bookedBy'' (bookedBy d) @
     required_str ''bookedByID'' (bookedByID d) @
     required_str ''bookingNo'' (bookingNo d) @
     enum_num ''statusID'' [1, 2, 3, 255] (statusID d)"

text \<open>
  Update validation (\<open>findByIdAndUpdate\<close> with \<open>runValidators: true\<close>): only the
  paths present in the update are checked, and \<open>this\<close> is the query, which has none of
  the document's paths.
\<close>

definition present_str :: "string \<Rightarrow> string option \<Rightarrow> string list" where
  "present_str path v = (case v of None \<Rightarrow> [] | Some s \<Rightarrow> if s = [] then [path] else [])"

definition validate_update :: "booking_data \<Rightarrow> string list" where
  "validate_update u =
     present_str ''fullName'' (fullName u) @
     present_str ''phone'' (phone u) @
     present_str ''hotelName'' (hotelName u) @
     present_str ''roomCategoryID'' (roomCategoryID u) @
     present_str ''roomCategoryName'' (roomCategoryName u) @
     present_str ''roomNumberID'' (roomNumberID u) @
     present_str ''roomNumberName'' (roomNumberName u) @
     min_num ''roomPrice'' 0 (roomPrice u) @
     custom ''checkOutDate'' (checkOutDate_validator no_fields) (checkOutDate u) @
     min_num ''nights'' 1 (nights u) @
     min_num ''totalBill'' 0 (totalBill u) @
     min_num ''advancePayment'' 0 (advancePayment u) @
     custom ''advancePayment'' (advancePayment_validator no_fields) (advancePayment u) @
     min_num ''duePayment'' 0 (duePayment u) @
     present_str ''bookedBy'' (bookedBy u) @
     present_str ''bookedByID'' (bookedByID u) @
     present_str ''bookingNo'' (bookingNo u) @
     enum_num ''statusID'' [1, 2, 3, 255] (statusID u)"

text \<open>
  The \<open>pre("save")\<close> hook. It runs after validation, so both operands are present
  when it computes; a missing operand would give \<open>NaN\<close>, which is not stored.
\<close>

definition pre_save :: "bool \<Rightarrow> booking_data \<Rightarrow> booking_data" where
  "pre_save isModified d =
     (if isModified
      then d\<lparr>duePayment :=
             (case (totalBill d, advancePayment d) of
                (Some tb, Some ap) \<Rightarrow> Some (max 0 (tb - ap))
              | _ \<Rightarrow> None)\<rparr>
      else d)"

text \<open>
  The unique indexes: \<open>bookingNo\<close> (unique), \<open>bookingID\<close> and \<open>serialNo\<close> (unique and
  sparse: documents without the path are not indexed).
\<close>

definition duplicate_key :: "bookings \<Rightarrow> booking_data \<Rightarrow> string option" where
  "duplicate_key others d =
     (if \<exists>b \<in> set others. bookingNo b = bookingNo d then Some ''bookingNo''
      else if bookingID d \<noteq> None \<and> (\<exists>b \<in> set others. bookingID b = bookingID d)
        then Some ''bookingID''
      else if serialNo d \<noteq> None \<and> (\<exists>b \<in> set others. serialNo b = serialNo d)
        then Some ''serialNo''
      else None)"

text \<open>
  What these indexes guarantee of every stored collection: two different documents never
  share a \<open>bookingNo\<close>, nor a \<open>bookingID\<close> or \<open>serialNo\<close> that they carry.
\<close>

definition unique_indexes :: "bookings \<Rightarrow> bool" where
  "unique_indexes store =
     (\<forall>b \<in> set store. \<forall>c \<in> set store.
        bid b \<noteq> bid c \<longrightarrow>
          bookingNo b \<noteq> bookingNo c \<and>
          (bookingID b \<noteq> None \<longrightarrow> bookingID b \<noteq> bookingID c) \<and>
          (serialNo b \<noteq> None \<longrightarrow> serialNo b \<noteq> serialNo c))"

text \<open>
  What a request finds in its environment: the clock, the server's time zone and the
  \<open>_id\<close> the driver gives to the next inserted document.
\<close>

record env =
  clock :: int
  zone :: int
  newId :: string

definition new_booking :: "string \<Rightarrow> int \<Rightarrow> booking_data \<Rightarrow> booking" where
  "new_booking i t d = booking_data.extend d (booking.fields i t)"

text \<open>
  \<open>Booking.create(doc)\<close>: defaults, validation, the save hook (on a new document a path
  is modified when it was set), then the insert under the unique indexes.
\<close>

definition Booking_create :: "env \<Rightarrow> bookings \<Rightarrow> booking_data \<Rightarrow> exn + booking \<times> bookings" where
  "Booking_create e store d =
     (if validate_document (apply_defaults d) \<noteq> []
      then Inl (ValidationError (validate_document (apply_defaults d)))
      else (case duplicate_key store
                   (pre_save (totalBill d \<noteq> None \<or> advancePayment d \<noteq> None) (apply_defaults d)) of
              Some path \<Rightarrow> Inl (DuplicateKey path)
            | None \<Rightarrow>
                Inr (new_booking (newId e) (clock e)
                       (pre_save (totalBill d \<noteq> None \<or> advancePayment d \<noteq> None)
                          (apply_defaults d)),
                     store @
                     [new_booking (newId e) (clock e)
                        (pre_save (totalBill d \<noteq> None \<or> advancePayment d \<noteq> None)
                           (apply_defaults d))])))"

text \<open>\<open>$set\<close> of the paths present in the update; the others keep their value.\<close>

definition set_path :: "'a option \<Rightarrow> 'a option \<Rightarrow> 'a option" where
  "set_path new old = (case new of None \<Rightarrow> old | Some v \<Rightarrow> Some v)"

definition set_fields :: "booking_data \<Rightarrow> booking \<Rightarrow> booking" where
  "set_fields u b = b\<lparr>
     fullName := set_path (fullName u) (fullName b),
     phone := set_path (phone u) (phone b),
     hotelName := set_path (hotelName u) (hotelName b),
     hotelID := set_path (hotelID u) (hotelID b),
     roomCategoryID := set_path (roomCategoryID u) (roomCategoryID b),
     roomCategoryName := set_path (roomCategoryName u) (roomCategoryName b),
     roomNumberID := set_path (roomNumberID u) (roomNumberID b),
     roomNumberName := set_path (roomNumberName u) (roomNumberName b),
     roomPrice := set_path (roomPrice u) (roomPrice b),
     checkInDate := set_path (checkInDate u) (checkInDate b),
     checkOutDate := set_path (checkOutDate u) (checkOutDate b),
     nights := set_path (nights u) (nights b),
     totalBill := set_path (totalBill u) (totalBill b),
     advancePayment := set_path (advancePayment u) (advancePayment b),
     duePayment := set_path (duePayment u) (duePayment b),
     bookedBy := set_path (bookedBy u) (bookedBy b),
     bookedByID := set_path (bookedByID u) (bookedByID b),
     bookingID := set_path (bookingID u) (bookingID b),
     bookingNo := set_path (bookingNo u) (bookingNo b),
     serialNo := set_path (serialNo u) (serialNo b),
     reference := set_path (reference u) (reference b),
     statusID := set_path (statusID u) (statusID b),
     canceledBy := set_path (canceledBy u) (canceledBy b),
     reason := set_path (reason u) (reason b)\<rparr>"

text \<open>
  \<open>Booking.findByIdAndUpdate(id, update, {new: true, runValidators: true})\<close>: an update
  query. It runs the update validators and writes the paths of the update; it does not
  load the document through \<open>save\<close>, so no \<open>pre("save")\<close> hook runs. The result is the
  updated document, or \<open>null\<close> when no document has the id.
\<close>

definition replace_by_id :: "string \<Rightarrow> booking \<Rightarrow> bookings \<Rightarrow> bookings" where
  "replace_by_id i b' store = map (\<lambda>b. if bid b = i then b' else b) store"

definition findByIdAndUpdate ::
  "bookings \<Rightarrow> string \<Rightarrow> booking_data \<Rightarrow> exn + booking option \<times> bookings" where
  "findByIdAndUpdate store i u =
     (if validate_update u \<noteq> [] then Inl (ValidationError (validate_update u))
      else (case find (\<lambda>b. bid b = i) store of
              None \<Rightarrow> Inr (None, store)
            | Some b \<Rightarrow>
                (case duplicate_key (filter (\<lambda>x. bid x \<noteq> i) store)
                        (booking_data.truncate (set_fields u b)) of
                   Some path \<Rightarrow> Inl (DuplicateKey path)
                 | None \<Rightarrow> Inr (Some (set_fields u b), replace_by_id i (set_fields u b) store))))"

section \<open>Reservation ledger (controllers/bookingController.js)\<close>

text \<open>
  A failed request: the HTTP status with its message, the 409 response carrying the
  overlapping booking, or a caught exception reported with the given status.
\<close>

datatype failure = Failure nat string | Overlap booking | Caught nat exn

definition assignBookingNo :: "env \<Rightarrow> bookings \<Rightarrow> booking_data \<Rightarrow> string option" where
  "assignBookingNo e store d =
     (if truthy_str (reference d)
      then (case find (\<lambda>b. bookingNo b = reference d) store of
              Some referenceBooking \<Rightarrow> bookingNo referenceBooking
            | None \<Rightarrow> Some (generateBookingNo (zone e) (clock e) store))
      else Some (generateBookingNo (zone e) (clock e) store))"

text \<open>
  \<open>createBooking\<close>. The dates reach the detector through \<open>new Date(...)\<close>; a \<open>NaN\<close>
  serial number is rejected by the cast of \<open>Booking.create\<close>, and every exception is
  answered with status 400.
\<close>

definition createBooking :: "env \<Rightarrow> bookings \<Rightarrow> booking_data \<Rightarrow> failure + booking \<times> bookings" where
  "createBooking e store d =
     (if \<not> truthy_num (hotelID d) \<or> \<not> truthy_str (roomNumberID d)
           \<or> \<not> truthy_str (roomCategoryID d)
      then Inl (Failure 400
             ''hotelID, roomNumberID, and roomCategoryID are required to check for conflicts'')
      else (case (checkInDate d, checkOutDate d) of
              (Some cin, Some cout) \<Rightarrow>
                (case checkBookingOverlap store (hotelID d) (roomNumberID d) (roomCategoryID d)
                        cin cout None of
                   Some overlappingBooking \<Rightarrow> Inl (Overlap overlappingBooking)
                 | None \<Rightarrow>
                     (case generateSerialNo store of
                        NaN \<Rightarrow> Inl (Caught 400 (CastError ''serialNo''))
                      | Num serial \<Rightarrow>
                          (case Booking_create e store
                                  (d\<lparr>bookingNo := assignBookingNo e store d,
                                     serialNo := Some serial\<rparr>) of
                             Inl x \<Rightarrow> Inl (Caught 400 x)
                           | Inr r \<Rightarrow> Inr r)))
            | _ \<Rightarrow> Inl (Failure 400 ''checkInDate and checkOutDate are required'')))"

text \<open>\<open>updateBooking\<close>: the detector runs only when a date or a room identifier is sent.\<close>

definition updateBooking ::
  "bookings \<Rightarrow> string \<Rightarrow> booking_data \<Rightarrow> failure + booking \<times> bookings" where
  "updateBooking store i d =
     (case find (\<lambda>b. bid b = i) store of
        None \<Rightarrow> Inl (Failure 404 ''Booking not found'')
      | Some existingBooking \<Rightarrow>
          (if (truthy_date (checkInDate d) \<or> truthy_date (checkOutDate d) \<or>
               truthy_num (hotelID d) \<or> truthy_str (roomNumberID d) \<or>
               truthy_str (roomCategoryID d)) \<and>
              (or_date (checkInDate d) (checkInDate existingBooking) = None \<or>
               or_date (checkOutDate d) (checkOutDate existingBooking) = None)
           then Inl (Failure 400 ''checkInDate and checkOutDate are required'')
           else (case (if truthy_date (checkInDate d) \<or> truthy_date (checkOutDate d) \<or>
                          truthy_num (hotelID d) \<or> truthy_str (roomNumberID d) \<or>
                          truthy_str (roomCategoryID d)
                       then (case (or_date (checkInDate d) (checkInDate existingBooking),
                                   or_date (checkOutDate d) (checkOutDate existingBooking)) of
                               (Some cin, Some cout) \<Rightarrow>
                                 checkBookingOverlap store
                                   (or_num (hotelID d) (hotelID existingBooking))
                                   (or_str (roomNumberID d) (roomNumberID existingBooking))
                                   (or_str (roomCategoryID d) (roomCategoryID existingBooking))
                                   cin cout (Some i)
                             | _ \<Rightarrow> None)
                       else None) of
                   Some overlappingBooking \<Rightarrow> Inl (Overlap overlappingBooking)
                 | None \<Rightarrow>
                     (case findByIdAndUpdate store i d of
                        Inl x \<Rightarrow> Inl (Caught 400 x)
                      | Inr (None, _) \<Rightarrow> Inl (Failure 404 ''Booking not found'')
                      | Inr (Some booking, store') \<Rightarrow> Inr (booking, store')))))"

text \<open>\<open>updateStatusID\<close>, the soft delete.\<close>

definition updateStatusID ::
  "bookings \<Rightarrow> string \<Rightarrow> string option \<Rightarrow> string option \<Rightarrow> failure + booking \<times> bookings" where
  "updateStatusID store i canceledBy' reason' =
     (case findByIdAndUpdate store i
             (no_fields\<lparr>statusID := Some 255, canceledBy := canceledBy', reason := reason'\<rparr>) of
        Inl x \<Rightarrow> Inl (Caught 500 x)
      | Inr (None, _) \<Rightarrow> Inl (Failure 404 ''Booking not found'')
      | Inr (Some booking, store') \<Rightarrow> Inr (booking, store'))"

text \<open>\<open>deleteBooking\<close>, the hard delete.\<close>

definition deleteBooking :: "bookings \<Rightarrow> string \<Rightarrow> failure + bookings" where
  "deleteBooking store i =
     (case find (\<lambda>b. bid b = i) store of
        None \<Rightarrow> Inl (Failure 404 ''Booking not found'')
      | Some _ \<Rightarrow> Inr (filter (\<lambda>b. bid b \<noteq> i) store))"

section \<open>Listings (controllers/bookingController.js)\<close>






section \<open>The daily serial as the specification words it\<close>

text \<open>
  "Computed by scanning all booking numbers sharing today's date prefix, extracting the
  trailing 2 digits, taking the maximum": the numbers read from the last two characters
  of the booking numbers that start with the prefix, and their maximum, 0 when there is
  none.
\<close>

definition spec_todays_serials :: "string \<Rightarrow> bookings \<Rightarrow> int list" where
  "spec_todays_serials p store =
     List.map_filter
       (\<lambda>b. case bookingNo b of
               None \<Rightarrow> None
             | Some no \<Rightarrow> if take (length p) no = p then parseInt (slice_last 2 no) else None)
       store"

definition spec_max_serial :: "string \<Rightarrow> bookings \<Rightarrow> int" where
  "spec_max_serial p store = Max (set (0 # spec_todays_serials p store))"

section \<open>The Hotel aggregate (models/Hotel.js)\<close>

text \<open>
  A hotel embeds its categories, and a category embeds its rooms. The fields are those
  the inventory operations read or write; \<open>_id\<close> is the identifier of a document or
  subdocument. Schema defaults are applied when a document is built, so \<open>status\<close>,
  \<open>images\<close>, \<open>roomNumbers\<close> and the two counters are always present. The legacy
  \<open>bookedDates\<close> and \<open>bookings\<close> of a room and the auto-increment plugin on \<open>hotelID\<close>
  are left out.
\<close>

record room =
  r_id :: string
  r_name :: "string option"
  r_status :: string
  r_price :: "int option"
  r_images :: "string list"

record category =
  c_id :: string
  c_name :: "string option"
  c_basePrice :: "int option"
  c_images :: "string list"
  roomNumbers :: "room list"
  isActive :: bool

record hotel =
  h_id :: string
  h_hotelID :: int
  h_hotelName :: "string option"
  h_hotelDescription :: "string option"
  h_status :: string
  h_images :: "string list"
  roomCategories :: "category list"
  totalRooms :: int
  availableRooms :: int

type_synonym hotels = "hotel list"

text \<open>The virtuals \<open>calculatedTotalRooms\<close> and \<open>calculatedAvailableRooms\<close>.\<close>

definition calculatedTotalRooms :: "hotel \<Rightarrow> int" where
  "calculatedTotalRooms h =
     foldl (\<lambda>total category. total + int (length (roomNumbers category))) 0
       (roomCategories h)"

definition calculatedAvailableRooms :: "hotel \<Rightarrow> int" where
  "calculatedAvailableRooms h =
     foldl (\<lambda>total category.
              total + int (length (filter (\<lambda>room. r_status room = ''available'')
                                     (roomNumbers category)))) 0
       (roomCategories h)"

text \<open>The \<open>pre("save")\<close> hook of the hotel schema.\<close>

definition pre_save_hotel :: "hotel \<Rightarrow> hotel" where
  "pre_save_hotel h =
     h\<lparr>totalRooms := calculatedTotalRooms h,
       availableRooms := calculatedAvailableRooms h\<rparr>"

text \<open>Schema validation of the whole document; the result lists the failing paths.\<close>

definition enum_str :: "string \<Rightarrow> string list \<Rightarrow> string \<Rightarrow> string list" where
  "enum_str path allowed v = (if v \<in> set allowed then [] else [path])"

definition validate_room :: "room \<Rightarrow> string list" where
  "validate_room r =
     required_str ''name'' (r_name r) @
     enum_str ''status'' [''available'', ''occupied'', ''maintenance'', ''reserved''] (r_status r) @
     min_num ''price'' 0 (r_price r)"

definition validate_category :: "category \<Rightarrow> string list" where
  "validate_category c =
     required_str ''name'' (c_name c) @
     min_num ''basePrice'' 0 (c_basePrice c) @
     concat (map validate_room (roomNumbers c))"

definition validate_hotel :: "hotel \<Rightarrow> string list" where
  "validate_hotel h =
     required_str ''hotelName'' (h_hotelName h) @
     required_str ''hotelDescription'' (h_hotelDescription h) @
     enum_str ''status'' [''active'', ''inactive'', ''maintenance''] (h_status h) @
     concat (map validate_category (roomCategories h))"

text \<open>
  \<open>hotel.save()\<close> on a loaded hotel: validation, the hook, then the write of the whole
  document over the stored one. \<open>Hotel.create\<close> does the same for a new document, under
  the unique index on \<open>hotelID\<close>.
\<close>

definition save :: "hotels \<Rightarrow> hotel \<Rightarrow> exn + hotel \<times> hotels" where
  "save hs h =
     (if validate_hotel h \<noteq> [] then Inl (ValidationError (validate_hotel h))
      else Inr (pre_save_hotel h,
                map (\<lambda>x. if h_id x = h_id h then pre_save_hotel h else x) hs))"

definition Hotel_create :: "hotels \<Rightarrow> hotel \<Rightarrow> exn + hotel \<times> hotels" where
  "Hotel_create hs h =
     (if validate_hotel h \<noteq> [] then Inl (ValidationError (validate_hotel h))
      else if \<exists>x \<in> set hs. h_hotelID x = h_hotelID h then Inl (DuplicateKey ''hotelID'')
      else Inr (pre_save_hotel h, hs @ [pre_save_hotel h]))"

section \<open>Inventory operations (controllers/hotelController.js)\<close>

text \<open>
  The \<open>:id\<close> parameter of a route: a valid ObjectId is looked up as \<open>_id\<close>, anything
  else goes through \<open>parseInt\<close> and is looked up as \<open>hotelID\<close>.
\<close>

datatype hotel_ref = ObjectId string | HotelNumber int

definition findHotel :: "hotels \<Rightarrow> hotel_ref \<Rightarrow> hotel option" where
  "findHotel hs ref =
     (case ref of
        ObjectId i \<Rightarrow> find (\<lambda>h. h_id h = i) hs
      | HotelNumber n \<Rightarrow> find (\<lambda>h. h_hotelID h = n) hs)"

text \<open>
  \<open>req.body.images\<close> is an array of URL strings or a single string. \<open>imageUrls\<close> below
  is \<open>getImageUrls(req)\<close>, the URLs of the uploaded files: empty exactly when no file
  was uploaded. A single string is truthy when it is not empty; when it is empty the key
  stays in the body as sent, and the schema casts a string to the one-element array.
\<close>

datatype images_field = ImageArray "string list" | ImageString string

text \<open>
  The image handling of \<open>createHotel\<close>, \<open>addCategory\<close> and \<open>addRoom\<close>: the images of
  the new document, \<open>[]\<close> by the schema default when none is given.
\<close>

definition images_on_create :: "string list \<Rightarrow> images_field option \<Rightarrow> string list" where
  "images_on_create imageUrls body_images =
     (if imageUrls \<noteq> [] then imageUrls
      else (case body_images of
              None \<Rightarrow> []
            | Some (ImageArray xs) \<Rightarrow> xs
            | Some (ImageString s) \<Rightarrow> [s]))"

text \<open>
  The image handling of \<open>updateHotel\<close>, \<open>updateCategory\<close> and \<open>updateRoom\<close>, followed
  by \<open>Object.assign\<close>: the images of the updated document.
\<close>

definition images_on_update ::
  "string list \<Rightarrow> string list \<Rightarrow> images_field option \<Rightarrow> string list" where
  "images_on_update existingImages imageUrls body_images =
     (if imageUrls \<noteq> [] then take 3 (existingImages @ imageUrls)
      else (case body_images of
              None \<Rightarrow> existingImages
            | Some (ImageArray xs) \<Rightarrow> take 3 xs
            | Some (ImageString s) \<Rightarrow> [s]))"

text \<open>
  Request bodies: the keys a client may send, each possibly missing. The counters are
  among the keys of a hotel body, since \<open>Object.assign\<close> copies whatever is sent; bodies
  that carry whole nested arrays (\<open>roomCategories\<close>, \<open>roomNumbers\<close>) are not modelled.
\<close>

record hotel_data =
  hd_hotelName :: "string option"
  hd_hotelDescription :: "string option"
  hd_status :: "string option"
  hd_images :: "images_field option"
  hd_totalRooms :: "int option"
  hd_availableRooms :: "int option"

record category_data =
  cd_name :: "string option"
  cd_basePrice :: "int option"
  cd_images :: "images_field option"
  cd_isActive :: "bool option"

record room_data =
  rd_name :: "string option"
  rd_status :: "string option"
  rd_price :: "int option"
  rd_images :: "images_field option"

definition or_default :: "'a option \<Rightarrow> 'a \<Rightarrow> 'a" where
  "or_default v d = (case v of None \<Rightarrow> d | Some x \<Rightarrow> x)"

text \<open>
  \<open>getNextHotelID\<close>: the hotel with the greatest \<open>hotelID\<close>, 1 when there is none or
  its \<open>hotelID\<close> is falsy.
\<close>

definition getNextHotelID :: "hotels \<Rightarrow> int" where
  "getNextHotelID hs =
     (case hs of
        [] \<Rightarrow> 1
      | _ # _ \<Rightarrow> if Max (set (map h_hotelID hs)) \<noteq> 0
                 then Max (set (map h_hotelID hs)) + 1 else 1)"

definition createHotel ::
  "hotels \<Rightarrow> string \<Rightarrow> string list \<Rightarrow> hotel_data \<Rightarrow> failure + hotel \<times> hotels" where
  "createHotel hs newId' imageUrls hotelData =
     (case Hotel_create hs
             \<lparr> h_id = newId', h_hotelID = getNextHotelID hs,
               h_hotelName = hd_hotelName hotelData,
               h_hotelDescription = hd_hotelDescription hotelData,
               h_status = or_default (hd_status hotelData) ''active'',
               h_images = images_on_create imageUrls (hd_images hotelData),
               roomCategories = [],
               totalRooms = or_default (hd_totalRooms hotelData) 0,
               availableRooms = or_default (hd_availableRooms hotelData) 0 \<rparr> of
        Inr r \<Rightarrow> Inr r
      | Inl (DuplicateKey _) \<Rightarrow> Inl (Failure 409 ''Hotel with this identifier already exists'')
      | Inl (ValidationError errors) \<Rightarrow> Inl (Caught 400 (ValidationError errors))
      | Inl x \<Rightarrow> Inl (Caught 500 x))"

text \<open>\<open>Object.assign(hotel, updateData)\<close> after the image handling.\<close>

definition assign_hotel :: "string list \<Rightarrow> hotel_data \<Rightarrow> hotel \<Rightarrow> hotel" where
  "assign_hotel imageUrls updateData h =
     h\<lparr>h_hotelName := set_path (hd_hotelName updateData) (h_hotelName h),
       h_hotelDescription := set_path (hd_hotelDescription updateData) (h_hotelDescription h),
       h_status := or_default (hd_status updateData) (h_status h),
       h_images := images_on_update (h_images h) imageUrls (hd_images updateData),
       totalRooms := or_default (hd_totalRooms updateData) (totalRooms h),
       availableRooms := or_default (hd_availableRooms updateData) (availableRooms h)\<rparr>"

definition updateHotel ::
  "hotels \<Rightarrow> hotel_ref \<Rightarrow> string list \<Rightarrow> hotel_data \<Rightarrow> failure + hotel \<times> hotels" where
  "updateHotel hs ref imageUrls updateData =
     (case findHotel hs ref of
        None \<Rightarrow> Inl (Failure 404 ''Hotel not found'')
      | Some h \<Rightarrow>
          (case save hs (assign_hotel imageUrls updateData h) of
             Inr r \<Rightarrow> Inr r
           | Inl (ValidationError errors) \<Rightarrow> Inl (Caught 400 (ValidationError errors))
           | Inl x \<Rightarrow> Inl (Caught 500 x)))"

text \<open>
  \<open>array.id(x)\<close> is the first subdocument with that \<open>_id\<close>; a change made through it,
  or its removal, touches that subdocument only.
\<close>

fun update_first :: "('a \<Rightarrow> bool) \<Rightarrow> ('a \<Rightarrow> 'a) \<Rightarrow> 'a list \<Rightarrow> 'a list" where
  "update_first P f [] = []"
| "update_first P f (x # xs) = (if P x then f x # xs else x # update_first P f xs)"

fun remove_first :: "('a \<Rightarrow> bool) \<Rightarrow> 'a list \<Rightarrow> 'a list" where
  "remove_first P [] = []"
| "remove_first P (x # xs) = (if P x then xs else x # remove_first P xs)"

text \<open>In the category and room handlers every exception is answered with status 500.\<close>

definition save_or_500 :: "string \<Rightarrow> hotels \<Rightarrow> hotel \<Rightarrow> failure + hotel \<times> hotels" where
  "save_or_500 message hs h =
     (case save hs h of Inr r \<Rightarrow> Inr r | Inl _ \<Rightarrow> Inl (Failure 500 message))"

definition new_category :: "string \<Rightarrow> string list \<Rightarrow> category_data \<Rightarrow> category" where
  "new_category newId' imageUrls categoryData =
     \<lparr> c_id = newId', c_name = cd_name categoryData,
       c_basePrice = cd_basePrice categoryData,
       c_images = images_on_create imageUrls (cd_images categoryData),
       roomNumbers = [],
       isActive = or_default (cd_isActive categoryData) True \<rparr>"

definition addCategory ::
  "hotels \<Rightarrow> hotel_ref \<Rightarrow> string \<Rightarrow> string list \<Rightarrow> category_data
     \<Rightarrow> failure + hotel \<times> hotels" where
  "addCategory hs ref newId' imageUrls categoryData =
     (case findHotel hs ref of
        None \<Rightarrow> Inl (Failure 404 ''Hotel not found'')
      | Some h \<Rightarrow>
          (case find (\<lambda>cat. c_name cat = cd_name categoryData) (roomCategories h) of
             Some existingCategory \<Rightarrow>
               Inl (Failure 409 ''Category with this name already exists in this hotel'')
           | None \<Rightarrow>
               save_or_500 ''Failed to add category'' hs
                 (h\<lparr>roomCategories :=
                      roomCategories h @ [new_category newId' imageUrls categoryData]\<rparr>)))"

definition assign_category :: "string list \<Rightarrow> category_data \<Rightarrow> category \<Rightarrow> category" where
  "assign_category imageUrls updateData c =
     c\<lparr>c_name := set_path (cd_name updateData) (c_name c),
       c_basePrice := set_path (cd_basePrice updateData) (c_basePrice c),
       c_images := images_on_update (c_images c) imageUrls (cd_images updateData),
       isActive := or_default (cd_isActive updateData) (isActive c)\<rparr>"

definition updateCategory ::
  "hotels \<Rightarrow> hotel_ref \<Rightarrow> string \<Rightarrow> string list \<Rightarrow> category_data
     \<Rightarrow> failure + hotel \<times> hotels" where
  "updateCategory hs ref categoryId imageUrls updateData =
     (case findHotel hs ref of
        None \<Rightarrow> Inl (Failure 404 ''Hotel not found'')
      | Some h \<Rightarrow>
          (case find (\<lambda>c. c_id c = categoryId) (roomCategories h) of
             None \<Rightarrow> Inl (Failure 404 ''Category not found'')
           | Some category \<Rightarrow>
               save_or_500 ''Failed to update category'' hs
                 (h\<lparr>roomCategories :=
                      update_first (\<lambda>c. c_id c = categoryId)
                        (assign_category imageUrls updateData) (roomCategories h)\<rparr>)))"

definition deleteCategory :: "hotels \<Rightarrow> hotel_ref \<Rightarrow> string \<Rightarrow> failure + hotel \<times> hotels" where
  "deleteCategory hs ref categoryId =
     (case findHotel hs ref of
        None \<Rightarrow> Inl (Failure 404 ''Hotel not found'')
      | Some h \<Rightarrow>
          (case find (\<lambda>c. c_id c = categoryId) (roomCategories h) of
             None \<Rightarrow> Inl (Failure 404 ''Category not found'')
           | Some category \<Rightarrow>
               save_or_500 ''Failed to delete category'' hs
                 (h\<lparr>roomCategories :=
                      remove_first (\<lambda>c. c_id c = categoryId) (roomCategories h)\<rparr>)))"

definition new_room :: "string \<Rightarrow> string list \<Rightarrow> room_data \<Rightarrow> room" where
  "new_room newId' imageUrls roomData =
     \<lparr> r_id = newId', r_name = rd_name roomData,
       r_status = or_default (rd_status roomData) ''available'',
       r_price = rd_price roomData,
       r_images = images_on_create imageUrls (rd_images roomData) \<rparr>"

definition addRoom ::
  "hotels \<Rightarrow> hotel_ref \<Rightarrow> string \<Rightarrow> string \<Rightarrow> string list \<Rightarrow> room_data
     \<Rightarrow> failure + hotel \<times> hotels" where
  "addRoom hs ref categoryId newId' imageUrls roomData =
     (case findHotel hs ref of
        None \<Rightarrow> Inl (Failure 404 ''Hotel not found'')
      | Some h \<Rightarrow>
          (case find (\<lambda>c. c_id c = categoryId) (roomCategories h) of
             None \<Rightarrow> Inl (Failure 404 ''Category not found'')
           | Some category \<Rightarrow>
               (case find (\<lambda>room. r_name room = rd_name roomData) (roomNumbers category) of
                  Some existingRoom \<Rightarrow>
                    Inl (Failure 409 ''Room with this name already exists in this category'')
                | None \<Rightarrow>
                    save_or_500 ''Failed to add room'' hs
                      (h\<lparr>roomCategories :=
                           update_first (\<lambda>c. c_id c = categoryId)
                             (\<lambda>c. c\<lparr>roomNumbers :=
                                      roomNumbers c @ [new_room newId' imageUrls roomData]\<rparr>)
                             (roomCategories h)\<rparr>))))"

definition assign_room :: "string list \<Rightarrow> room_data \<Rightarrow> room \<Rightarrow> room" where
  "assign_room imageUrls updateData r =
     r\<lparr>r_name := set_path (rd_name updateData) (r_name r),
       r_status := or_default (rd_status updateData) (r_status r),
       r_price := set_path (rd_price updateData) (r_price r),
       r_images := images_on_update (r_images r) imageUrls (rd_images updateData)\<rparr>"

definition updateRoom ::
  "hotels \<Rightarrow> hotel_ref \<Rightarrow> string \<Rightarrow> string \<Rightarrow> string list \<Rightarrow> room_data
     \<Rightarrow> failure + hotel \<times> hotels" where
  "updateRoom hs ref categoryId roomId imageUrls updateData =
     (case findHotel hs ref of
        None \<Rightarrow> Inl (Failure 404 ''Hotel not found'')
      | Some h \<Rightarrow>
          (case find (\<lambda>c. c_id c = categoryId) (roomCategories h) of
             None \<Rightarrow> Inl (Failure 404 ''Category not found'')
           | Some category \<Rightarrow>
               (case find (\<lambda>r. r_id r = roomId) (roomNumbers category) of
                  None \<Rightarrow> Inl (Failure 404 ''Room not found'')
                | Some room \<Rightarrow>
                    save_or_500 ''Failed to update room'' hs
                      (h\<lparr>roomCategories :=
                           update_first (\<lambda>c. c_id c = categoryId)
                             (\<lambda>c. c\<lparr>roomNumbers :=
                                      update_first (\<lambda>r. r_id r = roomId)
                                        (assign_room imageUrls updateData) (roomNumbers c)\<rparr>)
                             (roomCategories h)\<rparr>))))"

definition deleteRoom ::
  "hotels \<Rightarrow> hotel_ref \<Rightarrow> string \<Rightarrow> string \<Rightarrow> failure + hotel \<times> hotels" where
  "deleteRoom hs ref categoryId roomId =
     (case findHotel hs ref of
        None \<Rightarrow> Inl (Failure 404 ''Hotel not found'')
      | Some h \<Rightarrow>
          (case find (\<lambda>c. c_id c = categoryId) (roomCategories h) of
             None \<Rightarrow> Inl (Failure 404 ''Category not found'')
           | Some category \<Rightarrow>
               (case find (\<lambda>r. r_id r = roomId) (roomNumbers category) of
                  None \<Rightarrow> Inl (Failure 404 ''Room not found'')
                | Some room \<Rightarrow>
                    save_or_500 ''Failed to delete room'' hs
                      (h\<lparr>roomCategories :=
                           update_first (\<lambda>c. c_id c = categoryId)
                             (\<lambda>c. c\<lparr>roomNumbers :=
                                      remove_first (\<lambda>r. r_id r = roomId) (roomNumbers c)\<rparr>)
                             (roomCategories h)\<rparr>))))"

text \<open>
  The inventory routes (routes/hotelRoutes.js), one constructor per mutating route with
  the parameters its handler receives; every successful request answers with the saved
  hotel document and the collection after the write.
\<close>

datatype inventory_request =
    CreateHotel string "string list" hotel_data
  | UpdateHotel hotel_ref "string list" hotel_data
  | AddCategory hotel_ref string "string list" category_data
  | UpdateCategory hotel_ref string "string list" category_data
  | DeleteCategory hotel_ref string
  | AddRoom hotel_ref string string "string list" room_data
  | UpdateRoom hotel_ref string string "string list" room_data
  | DeleteRoom hotel_ref string string

fun handle :: "hotels \<Rightarrow> inventory_request \<Rightarrow> failure + hotel \<times> hotels" where
  "handle hs (CreateHotel newId' imageUrls body) = createHotel hs newId' imageUrls body"
| "handle hs (UpdateHotel ref imageUrls body) = updateHotel hs ref imageUrls body"
| "handle hs (AddCategory ref newId' imageUrls body) = addCategory hs ref newId' imageUrls body"
| "handle hs (UpdateCategory ref categoryId imageUrls body) =
     updateCategory hs ref categoryId imageUrls body"
| "handle hs (DeleteCategory ref categoryId) = deleteCategory hs ref categoryId"
| "handle hs (AddRoom ref categoryId newId' imageUrls body) =
     addRoom hs ref categoryId newId' imageUrls body"
| "handle hs (UpdateRoom ref categoryId roomId imageUrls body) =
     updateRoom hs ref categoryId roomId imageUrls body"
| "handle hs (DeleteRoom ref categoryId roomId) = deleteRoom hs ref categoryId roomId"

section \<open>Restaurant order numbers (models/restaurant/Order.js)\<close>

record order =
  orderNumber :: "string option"
  customerName :: "string option"
  o_createdAt :: int

text \<open>\<open>d.toISOString().slice(0, 10).replace(/-/g, "")\<close>\<close>

definition dateStr :: "int \<Rightarrow> string" where
  "dateStr d = filter (\<lambda>ch. ch \<noteq> CHR ''-'') (take 10 (toISOString d))"

text \<open>
  \<open>countDocuments({createdAt: {$gte: today, $lt: tomorrow}})\<close>, which either resolves
  to the count or rejects (the database cannot be reached).
\<close>

definition countDocuments :: "bool \<Rightarrow> order list \<Rightarrow> int \<Rightarrow> int \<Rightarrow> nat option" where
  "countDocuments reachable orders today tomorrow =
     (if reachable
      then Some (length (filter (\<lambda>ord. today \<le> o_createdAt ord \<and> o_createdAt ord < tomorrow)
                          orders))
      else None)"

text \<open>
  The \<open>pre("save")\<close> hook of the order schema, for the server's zone and the time
  \<open>clock\<close> that \<open>new Date()\<close> and \<open>Date.now()\<close> read. \<open>today\<close> is the local midnight,
  \<open>tomorrow\<close> the next one.
\<close>

definition order_pre_save :: "int \<Rightarrow> int \<Rightarrow> bool \<Rightarrow> order list \<Rightarrow> order \<Rightarrow> order" where
  "order_pre_save zone' clock' reachable orders this =
     (if \<not> truthy_str (orderNumber this)
      then (case countDocuments reachable orders
                   (setHours0 zone' clock') (nextDay (setHours0 zone' clock')) of
              Some count \<Rightarrow>
                this\<lparr>orderNumber :=
                  Some (''ORD-'' @ dateStr (setHours0 zone' clock') @ ''-'' @
                        padStart 4 CHR ''0'' (toString (int count + 1)))\<rparr>
            | None \<Rightarrow>
                this\<lparr>orderNumber :=
                  Some (''ORD-'' @ dateStr clock' @ ''-'' @ slice_last 4 (toString clock'))\<rparr>)
      else this)"

text \<open>
  "Today's date as YYYYMMDD", in the words of the specification: the calendar date of
  the current day on the server, the day whose orders the hook counts.
\<close>

definition spec_today_YYYYMMDD :: "int \<Rightarrow> int \<Rightarrow> string" where
  "spec_today_YYYYMMDD zone' clock' =
     padStart 4 CHR ''0'' (toString (YearFromTime (LocalTime zone' clock'))) @
     padStart 2 CHR ''0'' (toString (MonthFromTime (LocalTime zone' clock') + 1)) @
     padStart 2 CHR ''0'' (toString (DateFromTime (LocalTime zone' clock')))"

section \<open>Example data\<close>

text \<open>
  The scenario of the specification: hotel "Grand" (hotelID 1), category "Deluxe", room
  "101". Booking X stays from 2024-06-01 to 2024-06-05 (UTC midnights), with a total bill
  of 400 and an advance of 100. The request is made on 2024-05-29 at 16:26:40 UTC on a
  server six hours east of UTC.
\<close>

definition request_X :: booking_data where
  "request_X = \<lparr> fullName = Some ''Alice'', phone = Some ''+8801700000000'',
     hotelName = Some ''Grand'', hotelID = Some 1,
     roomCategoryID = Some ''cat-deluxe'', roomCategoryName = Some ''Deluxe'',
     roomNumberID = Some ''room-101'', roomNumberName = Some ''101'', roomPrice = Some 100,
     checkInDate = Some 1717200000000, checkOutDate = Some 1717545600000,
     nights = Some 4, totalBill = Some 400, advancePayment = Some 100,
     duePayment = Some 300, bookedBy = Some ''frontdesk'', bookedByID = Some ''user-1'',
     bookingID = None, bookingNo = None, serialNo = None, reference = None,
     statusID = None, canceledBy = None, reason = None \<rparr>"

definition env_X :: env where
  "env_X = \<lparr> clock = 1717000000000, zone = 360, newId = ''id-X'' \<rparr>"

definition booking_X :: booking where
  "booking_X = new_booking ''id-X'' 1717000000000
     (request_X\<lparr>bookingNo := Some ''24052901'', serialNo := Some 1, statusID := Some 1\<rparr>)"

text \<open>Request Y: 2024-06-04 to 2024-06-06; request Z: 2024-06-05 to 2024-06-07.\<close>

definition request_Y :: booking_data where
  "request_Y = request_X\<lparr>fullName := Some ''Bob'', checkInDate := Some 1717459200000,
     checkOutDate := Some 1717632000000, nights := Some 2, totalBill := Some 200,
     advancePayment := Some 0, duePayment := Some 200\<rparr>"

definition request_Z :: booking_data where
  "request_Z = request_X\<lparr>fullName := Some ''Carol'', checkInDate := Some 1717545600000,
     checkOutDate := Some 1717718400000, nights := Some 2, totalBill := Some 200,
     advancePayment := Some 0, duePayment := Some 200\<rparr>"

definition env_Z :: env where
  "env_Z = \<lparr> clock = 1717000060000, zone = 360, newId = ''id-Z'' \<rparr>"

text \<open>
  Request W: room "102" of the same category for the same nights, sent with the
  \<open>reference\<close> of booking X's number (a second room of the same stay).
\<close>

definition request_W :: booking_data where
  "request_W = request_X\<lparr>roomNumberID := Some ''room-102'', roomNumberName := Some ''102'',
     reference := Some ''24052901''\<rparr>"

text \<open>A booking of the same day that carries the serial 99.\<close>

definition booking_99 :: booking where
  "booking_99 = new_booking ''id-99'' 1717000000000
     (request_X\<lparr>bookingNo := Some ''24052999'', serialNo := Some 99, statusID := Some 1\<rparr>)"

text \<open>Booking X after its cancellation by the manager.\<close>

definition cancelled_X :: booking where
  "cancelled_X = booking_X\<lparr>statusID := Some 255, canceledBy := Some ''manager'',
     reason := Some ''guest request''\<rparr>"

text \<open>
  Request V, made a minute after X's cancellation for the room and nights of X, and the
  booking it creates; a later moment at which request X is sent once more.
\<close>

definition request_V :: booking_data where
  "request_V = request_X\<lparr>fullName := Some ''Erin''\<rparr>"

definition env_V :: env where
  "env_V = \<lparr> clock = 1717000060000, zone = 360, newId = ''id-V'' \<rparr>"

definition booking_V :: booking where
  "booking_V = new_booking ''id-V'' 1717000060000
     (request_V\<lparr>bookingNo := Some ''24052902'', serialNo := Some 2, statusID := Some 1\<rparr>)"

definition env_W :: env where
  "env_W = \<lparr> clock = 1717000120000, zone = 360, newId = ''id-W'' \<rparr>"



text \<open>
  Hotel "Grand" with the categories "Deluxe" (rooms 101, available, and 102, occupied)
  and "Suite" (no room).
\<close>

definition room_101 :: room where
  "room_101 = \<lparr> r_id = ''room-101'', r_name = Some ''101'', r_status = ''available'',
     r_price = Some 100, r_images = [''img-a''] \<rparr>"

definition room_102 :: room where
  "room_102 = \<lparr> r_id = ''room-102'', r_name = Some ''102'', r_status = ''occupied'',
     r_price = Some 100, r_images = [] \<rparr>"

definition deluxe :: category where
  "deluxe = \<lparr> c_id = ''cat-deluxe'', c_name = Some ''Deluxe'', c_basePrice = Some 100,
     c_images = [''img-d1'', ''img-d2''], roomNumbers = [room_101, room_102],
     isActive = True \<rparr>"

definition suite :: category where
  "suite = \<lparr> c_id = ''cat-suite'', c_name = Some ''Suite'', c_basePrice = Some 250,
     c_images = [], roomNumbers = [], isActive = True \<rparr>"

definition grand :: hotel where
  "grand = \<lparr> h_id = ''hotel-grand'', h_hotelID = 1, h_hotelName = Some ''Grand'',
     h_hotelDescription = Some ''A hotel by the sea'', h_status = ''active'',
     h_images = [''img-1''], roomCategories = [deluxe, suite],
     totalRooms = 2, availableRooms = 1 \<rparr>"

definition no_hotel_data :: hotel_data where
  "no_hotel_data = \<lparr> hd_hotelName = None, hd_hotelDescription = None, hd_status = None,
     hd_images = None, hd_totalRooms = None, hd_availableRooms = None \<rparr>"

definition no_category_data :: category_data where
  "no_category_data = \<lparr> cd_name = None, cd_basePrice = None, cd_images = None,
     cd_isActive = None \<rparr>"

definition no_room_data :: room_data where
  "no_room_data = \<lparr> rd_name = None, rd_status = None, rd_price = None, rd_images = None \<rparr>"

text \<open>An order without a number, as the order controller builds it.\<close>

definition new_order :: order where
  "new_order = \<lparr> orderNumber = None, customerName = Some ''Dina'',
     o_createdAt = 1704168000000 \<rparr>"

section \<open>Evaluation of the model on concrete data\<close>

lemma replicate_small:
  "replicate 2 c = [c, c]" "replicate 3 c = [c, c, c]" "replicate 4 c = [c, c, c, c]"
  by (simp_all add: numeral_2_eq_2 numeral_3_eq_3 eval_nat_numeral)

lemmas date_defs = msPerDay_def Day_def TimeWithinDay_def dayOfEra_def yearOfEra_def
  dayOfMarchYear_def marchMonth_def MonthFromTime_def DateFromTime_def YearFromTime_def
  LocalTime_def setHours0_def nextDay_def

lemmas str_defs = toString_def toString_nat.simps digit_char_def padStart_def slice_last_def
  replicate_small

lemmas parse_defs = parseInt_def isWhiteSpace_def digit_val_def digits_value_def

lemmas booking_eval = createBooking_def checkBookingOverlap_def overlap_filter_def
  generateSerialNo_def assignBookingNo_def Booking_create_def validate_document_def
  apply_defaults_def required_str_def required_num_def min_num_def enum_num_def custom_def
  present_str_def truthy_str_def truthy_num_def truthy_date_def or_str_def or_num_def
  or_date_def checkOutDate_validator_def advancePayment_validator_def pre_save_def
  duplicate_key_def updateBooking_def findByIdAndUpdate_def validate_update_def
  set_fields_def set_path_def replace_by_id_def updateStatusID_def no_fields_def

lemma new_booking_sel [simp]:
  "fullName (new_booking i t d) = fullName d"
  "phone (new_booking i t d) = phone d"
  "hotelName (new_booking i t d) = hotelName d"
  "hotelID (new_booking i t d) = hotelID d"
  "roomCategoryID (new_booking i t d) = roomCategoryID d"
  "roomCategoryName (new_booking i t d) = roomCategoryName d"
  "roomNumberID (new_booking i t d) = roomNumberID d"
  "roomNumberName (new_booking i t d) = roomNumberName d"
  "roomPrice (new_booking i t d) = roomPrice d"
  "checkInDate (new_booking i t d) = checkInDate d"
  "checkOutDate (new_booking i t d) = checkOutDate d"
  "nights (new_booking i t d) = nights d"
  "totalBill (new_booking i t d) = totalBill d"
  "advancePayment (new_booking i t d) = advancePayment d"
  "duePayment (new_booking i t d) = duePayment d"
  "bookedBy (new_booking i t d) = bookedBy d"
  "bookedByID (new_booking i t d) = bookedByID d"
  "bookingID (new_booking i t d) = bookingID d"
  "bookingNo (new_booking i t d) = bookingNo d"
  "serialNo (new_booking i t d) = serialNo d"
  "reference (new_booking i t d) = reference d"
  "statusID (new_booking i t d) = statusID d"
  "canceledBy (new_booking i t d) = canceledBy d"
  "reason (new_booking i t d) = reason d"
  "bid (new_booking i t d) = i"
  "createdAt (new_booking i t d) = t"
  by (simp_all add: new_booking_def booking_data.defs booking.defs)

lemma datePrefix_X: "datePrefix 360 1717000000000 = ''240529''"
  by (simp add: datePrefix_def date_defs str_defs)

lemma datePrefix_Z: "datePrefix 360 1717000060000 = ''240529''"
  by (simp add: datePrefix_def date_defs str_defs)

lemma generateBookingNo_first: "generateBookingNo 360 1717000000000 [] = ''24052901''"
  by (simp add: generateBookingNo_def datePrefix_X maxSerialNo_def str_defs)

text \<open>The example booking X is what \<open>createBooking\<close> stores for request X.\<close>

lemma createBooking_X: "createBooking env_X [] request_X = Inr (booking_X, [booking_X])"
  by (simp add: booking_eval env_X_def generateBookingNo_first request_X_def booking_X_def)

text \<open>Request Y overlaps X and is refused with X as the competing booking.\<close>

lemma createBooking_Y: "createBooking env_Z [booking_X] request_Y = Inl (Overlap booking_X)"
  by (simp add: booking_eval env_Z_def request_Y_def request_X_def booking_X_def)

section \<open>Properties of the overlap detector\<close>

lemma find_None_iff_no_match: "(find P xs = None) = (\<forall>x \<in> set xs. \<not> P x)"
  by (induction xs) auto

lemma find_Some_member: "find P xs = Some x \<Longrightarrow> x \<in> set xs \<and> P x"
  by (induction xs) (auto split: if_splits)

text \<open>
  C1. With an excluded id that is absent or a non-empty string, the detector reports a
  conflict exactly when some stored booking has the same hotel, room and category, is not
  cancelled (status other than 255), is not the excluded booking, starts before the
  candidate's check-out and ends after the candidate's check-in. The booking reported is
  such a booking. A stored booking whose check-out equals the candidate's check-in, or
  whose check-in equals the candidate's check-out, never matches: if every stored booking
  is back-to-back with the candidate in this way, no conflict is reported.
\<close>

theorem checkBookingOverlap_conflict_iff:
  assumes "ex \<noteq> Some []"
  shows "((checkBookingOverlap store h r c cin cout ex \<noteq> None) \<longleftrightarrow>
           (\<exists>b \<in> set store. hotelID b = h \<and> roomNumberID b = r \<and> roomCategoryID b = c \<and>
              statusID b \<noteq> Some 255 \<and> Some (bid b) \<noteq> ex \<and>
              (\<exists>ci co. checkInDate b = Some ci \<and> checkOutDate b = Some co \<and>
                        ci < cout \<and> co > cin))) \<and>
         (\<forall>b. checkBookingOverlap store h r c cin cout ex = Some b \<longrightarrow>
              b \<in> set store \<and> hotelID b = h \<and> roomNumberID b = r \<and> roomCategoryID b = c \<and>
              statusID b \<noteq> Some 255 \<and> Some (bid b) \<noteq> ex) \<and>
         ((\<forall>b \<in> set store. checkOutDate b = Some cin \<or> checkInDate b = Some cout) \<longrightarrow>
              checkBookingOverlap store h r c cin cout ex = None)"
proof -
  have excl: "\<And>b. (if truthy_str ex then Some (bid b) \<noteq> ex else True) = (Some (bid b) \<noteq> ex)"
    using assms by (cases ex) (auto simp: truthy_str_def)
  have match: "\<And>b. overlap_filter h r c cin cout ex b =
      (hotelID b = h \<and> roomNumberID b = r \<and> roomCategoryID b = c \<and>
       statusID b \<noteq> Some 255 \<and> Some (bid b) \<noteq> ex \<and>
       (\<exists>ci co. checkInDate b = Some ci \<and> checkOutDate b = Some co \<and> ci < cout \<and> co > cin))"
    unfolding overlap_filter_def excl by (auto split: option.splits)
  have iff: "(checkBookingOverlap store h r c cin cout ex \<noteq> None) =
      (\<exists>b \<in> set store. overlap_filter h r c cin cout ex b)"
    unfolding checkBookingOverlap_def by (simp add: find_None_iff_no_match)
  have reported: "\<forall>b. checkBookingOverlap store h r c cin cout ex = Some b \<longrightarrow>
      b \<in> set store \<and> overlap_filter h r c cin cout ex b"
    unfolding checkBookingOverlap_def using find_Some_member by fastforce
  have b2b: "(\<forall>b \<in> set store. checkOutDate b = Some cin \<or> checkInDate b = Some cout) \<longrightarrow>
      checkBookingOverlap store h r c cin cout ex = None"
    unfolding checkBookingOverlap_def find_None_iff_no_match overlap_filter_def
    by (auto split: option.splits)
  show ?thesis using iff reported b2b by (simp add: match)
qed

theorem checkBookingOverlap_conflict_iff_witness:
  "checkBookingOverlap [booking_X] (Some 1) (Some ''room-101'') (Some ''cat-deluxe'')
      1717459200000 1717632000000 None \<noteq> None \<and>
   checkBookingOverlap [booking_X] (Some 1) (Some ''room-101'') (Some ''cat-deluxe'')
      1717545600000 1717718400000 None = None"
  using checkBookingOverlap_conflict_iff [of None "[booking_X]" "Some 1" "Some ''room-101''"
          "Some ''cat-deluxe''" 1717459200000 1717632000000]
        checkBookingOverlap_conflict_iff [of None "[booking_X]" "Some 1" "Some ''room-101''"
          "Some ''cat-deluxe''" 1717545600000 1717718400000]
  by (simp add: booking_X_def request_X_def)

section \<open>Payments after a create and after an update\<close>

lemma validated_bills_present:
  "validate_document d = [] \<Longrightarrow> totalBill d \<noteq> None \<and> advancePayment d \<noteq> None"
  by (simp add: validate_document_def required_num_def split: if_splits)

text \<open>
  On the create path the hook does run: a booking that \<open>createBooking\<close> stores has
  \<open>duePayment = max(0, totalBill - advancePayment)\<close>.
\<close>

lemma createBooking_duePayment:
  assumes "createBooking e store d = Inr (b, store')"
  shows "\<exists>tb ap. totalBill b = Some tb \<and> advancePayment b = Some ap \<and>
                 duePayment b = Some (max 0 (tb - ap))"
proof -
  obtain d' where c: "Booking_create e store d' = Inr (b, store')"
    using assms
    by (auto simp: createBooking_def split: if_splits option.splits number.splits sum.splits)
  then have v: "validate_document (apply_defaults d') = []"
    by (auto simp: Booking_create_def split: if_splits)
  then have p: "totalBill d' \<noteq> None \<and> advancePayment d' \<noteq> None"
    using validated_bills_present [OF v] by (simp add: apply_defaults_def split: if_splits)
  have "b = new_booking (newId e) (clock e) (pre_save True (apply_defaults d'))"
    using c p by (auto simp: Booking_create_def split: if_splits option.splits)
  then show ?thesis using p by (auto simp: pre_save_def apply_defaults_def)
qed

text \<open>
  C2. \<open>updateBooking\<close> writes through \<open>findByIdAndUpdate\<close>, which runs no
  \<open>pre("save")\<close> hook. Booking X has a total bill of 400, an advance of 100 and a due
  payment of 300; after the update \<open>{totalBill: 500}\<close> the stored booking has a total
  bill of 500, an advance of 100 and still a due payment of 300, not 400.
\<close>

theorem updateBooking_totalBill_keeps_duePayment:
  "updateBooking [booking_X] ''id-X'' (no_fields\<lparr>totalBill := Some 500\<rparr>) =
     Inr (booking_X\<lparr>totalBill := Some 500\<rparr>, [booking_X\<lparr>totalBill := Some 500\<rparr>]) \<and>
   totalBill (booking_X\<lparr>totalBill := Some 500\<rparr>) = Some 500 \<and>
   advancePayment (booking_X\<lparr>totalBill := Some 500\<rparr>) = Some 100 \<and>
   duePayment (booking_X\<lparr>totalBill := Some 500\<rparr>) = Some 300"
  by (simp add: booking_eval booking_X_def request_X_def new_booking_def
        booking_data.defs booking.defs)

theorem updateBooking_totalBill_keeps_duePayment_witness:
  "(case updateBooking [booking_X] ''id-X'' (no_fields\<lparr>totalBill := Some 500\<rparr>) of
      Inl _ \<Rightarrow> False
    | Inr (b, _) \<Rightarrow> duePayment b \<noteq> Some (max 0 (500 - 100)))"
  using updateBooking_totalBill_keeps_duePayment by simp

section \<open>The reference of a new booking\<close>

text \<open>
  C8. Request W names booking X's number as its \<open>reference\<close>. \<open>createBooking\<close> adopts
  that number, and the insert is then refused by the unique index on \<open>bookingNo\<close>: the
  response is status 400 with the duplicate-key error, and nothing is stored.
\<close>

theorem createBooking_reference_duplicate_key:
  "createBooking env_Z [booking_X] request_W = Inl (Caught 400 (DuplicateKey ''bookingNo''))"
  by (simp add: booking_eval env_Z_def request_W_def request_X_def booking_X_def)

theorem createBooking_reference_duplicate_key_witness:
  "isl (createBooking env_Z [booking_X] request_W) \<and>
   assignBookingNo env_Z [booking_X] request_W = bookingNo booking_X"
  using createBooking_reference_duplicate_key
  by (simp add: assignBookingNo_def truthy_str_def request_W_def request_X_def booking_X_def)

section \<open>The booking number generator\<close>

lemma digit_val_le9: "digit_val ch = Some d \<Longrightarrow> d \<le> 9"
proof -
  assume "digit_val ch = Some d"
  then have "(ch, d) \<in> set (zip ''0123456789'' [0, 1, 2, 3, 4, 5, 6, 7, 8, 9])"
    unfolding digit_val_def by (rule map_of_SomeD)
  then have "d \<in> set [0, 1, 2, 3, 4, 5, 6, 7, 8, 9]"
    by (rule set_zip_rightD)
  then show ?thesis by auto
qed

lemma digits_prefix_length: "length (digits_prefix s) \<le> length s"
  by (induction s) (auto split: option.splits)

lemma digits_prefix_le9: "d \<in> set (digits_prefix s) \<Longrightarrow> d \<le> 9"
  by (induction s) (auto split: option.splits dest: digit_val_le9 [OF sym] digit_val_le9)

lemma foldl_digits_bound:
  "\<forall>d \<in> set ds. d \<le> 9 \<Longrightarrow> foldl (\<lambda>acc d. 10 * acc + d) (a::nat) ds < (a + 1) * 10 ^ length ds"
proof (induction ds arbitrary: a)
  case Nil
  then show ?case by simp
next
  case (Cons d ds)
  have "foldl (\<lambda>acc d. 10 * acc + d) (10 * a + d) ds < (10 * a + d + 1) * 10 ^ length ds"
    using Cons by simp
  also have "\<dots> \<le> (10 * a + 10) * 10 ^ length ds"
  proof (rule mult_le_mono1)
    show "10 * a + d + 1 \<le> 10 * a + 10" using Cons.prems by simp
  qed
  finally show ?case by (simp add: algebra_simps)
qed

lemma digits_value_bound: "\<forall>d \<in> set ds. d \<le> 9 \<Longrightarrow> digits_value ds < 10 ^ length ds"
  using foldl_digits_bound [of ds 0] by (simp add: digits_value_def)

lemma parseInt_two_chars:
  assumes "parseInt s = Some n" and "length s \<le> 2"
  shows "n \<le> 99"
proof -
  define s1 where "s1 = dropWhile isWhiteSpace s"
  define s2 where "s2 = (case s1 of [] \<Rightarrow> []
                | ch # rest \<Rightarrow> if ch = CHR ''-'' \<or> ch = CHR ''+'' then rest else s1)"
  define ds where "ds = digits_prefix s2"
  have "length s1 \<le> 2" unfolding s1_def using assms(2) length_dropWhile_le le_trans by blast
  then have "length s2 \<le> 2" unfolding s2_def by (auto split: list.splits)
  then have len: "length ds \<le> 2" unfolding ds_def using digits_prefix_length le_trans by blast
  have "digits_value ds < 10 ^ length ds"
    unfolding ds_def by (rule digits_value_bound) (auto dest: digits_prefix_le9)
  also have "\<dots> \<le> 10 ^ 2" using len power_increasing [of "length ds" 2 "10::nat"] by simp
  finally have v: "digits_value ds < 100" by simp
  have "n = int (digits_value ds) \<or> n = - int (digits_value ds)"
    using assms(1) unfolding parseInt_def Let_def s1_def [symmetric] s2_def [symmetric] ds_def [symmetric]
    by (auto split: if_splits)
  then show ?thesis using v by auto
qed

lemma slice_last_length: "length (slice_last n s) \<le> n"
  by (simp add: slice_last_def)

lemma foldl_scanSerial:
  "foldl scanSerial acc (filter (matches_prefix p) store) =
     fold max (spec_todays_serials p store) acc"
proof (induction store arbitrary: acc)
  case Nil
  then show ?case by (simp add: spec_todays_serials_def map_filter_simps)
next
  case (Cons b store)
  show ?case
  proof (cases "matches_prefix p b")
    case False
    then have "spec_todays_serials p (b # store) = spec_todays_serials p store"
      by (auto simp: spec_todays_serials_def map_filter_simps matches_prefix_def split: option.splits)
    then show ?thesis using False Cons by simp
  next
    case True
    then obtain no where no: "bookingNo b = Some no" "take (length p) no = p"
      by (auto simp: matches_prefix_def split: option.splits)
    show ?thesis
    proof (cases "parseInt (slice_last 2 no)")
      case None
      then have "spec_todays_serials p (b # store) = spec_todays_serials p store"
        using no by (simp add: spec_todays_serials_def map_filter_simps)
      moreover have "scanSerial acc b = acc"
        using no None by (simp add: scanSerial_def)
      ultimately show ?thesis using True Cons by simp
    next
      case (Some serial)
      then have ne: "no \<noteq> []" by (auto simp: slice_last_def parseInt_def)
      have s: "spec_todays_serials p (b # store) = serial # spec_todays_serials p store"
        using no Some by (simp add: spec_todays_serials_def map_filter_simps)
      have sc: "scanSerial acc b = max serial acc"
        using no Some ne by (simp add: scanSerial_def max_def)
      show ?thesis using True Cons s sc by simp
    qed
  qed
qed

lemma maxSerialNo_spec: "maxSerialNo p store = spec_max_serial p store"
  unfolding maxSerialNo_def spec_max_serial_def foldl_scanSerial Max.set_eq_fold
  by (rule refl)

lemma spec_todays_serials_le99: "n \<in> set (spec_todays_serials p store) \<Longrightarrow> n \<le> 99"
proof -
  assume "n \<in> set (spec_todays_serials p store)"
  then obtain no where "parseInt (slice_last 2 no) = Some n"
    by (auto simp: spec_todays_serials_def map_filter_def split: option.splits if_splits)
  then show ?thesis using parseInt_two_chars slice_last_length by blast
qed

lemma spec_max_serial_range: "0 \<le> spec_max_serial p store \<and> spec_max_serial p store \<le> 99"
  unfolding spec_max_serial_def
  by (auto intro: spec_todays_serials_le99)

lemma toString_one_digit: "0 \<le> k \<Longrightarrow> k < 10 \<Longrightarrow> length (toString k) = 1"
  by (simp add: toString_def toString_nat.simps)

lemma toString_two_digits: "10 \<le> k \<Longrightarrow> k < 100 \<Longrightarrow> length (toString k) = 2"
proof -
  assume k: "10 \<le> k" "k < 100"
  then have "nat k div 10 < 10" by auto
  then show ?thesis using k
    by (simp add: toString_def toString_nat.simps [of "nat k"] toString_nat.simps [of "nat k div 10"])
qed

lemma toString_100: "toString 100 = ''100''"
  by (simp add: toString_def toString_nat.simps digit_char_def)

lemma padStart_serial_length:
  assumes "0 \<le> m" "m < 99"
  shows "length (padStart 2 CHR ''0'' (toString (m + 1))) = 2"
proof (cases "m + 1 < 10")
  case True
  then show ?thesis using assms toString_one_digit [of "m + 1"] by (simp add: padStart_def)
next
  case False
  then show ?thesis using assms toString_two_digits [of "m + 1"] by (simp add: padStart_def)
qed

lemma generateBookingNo_second:
  "generateBookingNo 360 1717000060000 [booking_X] = ''24052902''"
  by (simp add: generateBookingNo_def datePrefix_Z maxSerialNo_def scanSerial_def
        matches_prefix_def parse_defs str_defs booking_X_def)

lemma generateBookingNo_after_99:
  "generateBookingNo 360 1717000060000 [booking_99] = ''240529100''"
  by (simp add: generateBookingNo_def datePrefix_Z maxSerialNo_def scanSerial_def
        matches_prefix_def parse_defs str_defs booking_99_def)

text \<open>
  C5, as stated, fails: with a booking numbered 24052999 stored for the day, the
  generator returns 240529100, the prefix followed by three digits.
\<close>

theorem generateBookingNo_two_digits_counterexample:
  "\<not> (\<exists>serial. length serial = 2 \<and>
         generateBookingNo 360 1717000060000 [booking_99] =
           datePrefix 360 1717000060000 @ serial)"
  by (auto simp: generateBookingNo_after_99 datePrefix_Z)

text \<open>
  C5, amended. The generator returns the local date prefix followed by the decimal
  digits, padded with zeros to at least two characters, of one more than the maximum of
  the numbers read from the last two characters of the day's booking numbers (0 when
  there is none). That maximum lies between 0 and 99. Below 99 the serial has exactly two
  digits; at 99 the serial is the three digits 100, and the generator still returns.
\<close>

theorem generateBookingNo_serial:
  "generateBookingNo z t store =
     datePrefix z t @
     padStart 2 CHR ''0'' (toString (spec_max_serial (datePrefix z t) store + 1)) \<and>
   0 \<le> spec_max_serial (datePrefix z t) store \<and>
   spec_max_serial (datePrefix z t) store \<le> 99 \<and>
   (spec_max_serial (datePrefix z t) store < 99 \<longrightarrow>
      length (generateBookingNo z t store) = length (datePrefix z t) + 2) \<and>
   (spec_max_serial (datePrefix z t) store = 99 \<longrightarrow>
      generateBookingNo z t store = datePrefix z t @ ''100'')"
proof -
  let ?m = "spec_max_serial (datePrefix z t) store"
  have gen: "generateBookingNo z t store =
      datePrefix z t @ padStart 2 CHR ''0'' (toString (?m + 1))"
    by (simp add: generateBookingNo_def maxSerialNo_spec)
  have range: "0 \<le> ?m \<and> ?m \<le> 99" by (rule spec_max_serial_range)
  have short: "?m < 99 \<longrightarrow> length (generateBookingNo z t store) = length (datePrefix z t) + 2"
    using range by (simp add: gen padStart_serial_length)
  have full: "?m = 99 \<longrightarrow> generateBookingNo z t store = datePrefix z t @ ''100''"
    by (simp add: gen toString_100 padStart_def)
  show ?thesis using gen range short full by blast
qed

theorem generateBookingNo_serial_witness:
  "generateBookingNo 360 1717000060000 [booking_X] = ''240529'' @ ''02'' \<and>
   spec_max_serial ''240529'' [booking_X] = 1 \<and>
   generateBookingNo 360 1717000060000 [booking_99] = ''240529'' @ ''100'' \<and>
   spec_max_serial ''240529'' [booking_99] = 99"
proof -
  have x: "spec_max_serial ''240529'' [booking_X] = 1"
    by (simp add: spec_max_serial_def spec_todays_serials_def map_filter_simps
          parse_defs slice_last_def booking_X_def)
  have y: "spec_max_serial ''240529'' [booking_99] = 99"
    by (simp add: spec_max_serial_def spec_todays_serials_def map_filter_simps
          parse_defs slice_last_def booking_99_def)
  show ?thesis
    using generateBookingNo_serial [of 360 1717000060000 "[booking_X]"]
          generateBookingNo_serial [of 360 1717000060000 "[booking_99]"]
    by (simp add: datePrefix_Z x y str_defs)
qed

section \<open>Cancelling and rebooking\<close>

subsection \<open>The generated booking number is unused\<close>

lemma digit_char_facts:
  assumes "d < 10"
  shows "digit_val (digit_char d) = Some d \<and> \<not> isWhiteSpace (digit_char d) \<and>
         digit_char d \<noteq> CHR ''-'' \<and> digit_char d \<noteq> CHR ''+''"
proof -
  have "d = 0 \<or> d = 1 \<or> d = 2 \<or> d = 3 \<or> d = 4 \<or> d = 5 \<or> d = 6 \<or> d = 7 \<or> d = 8 \<or> d = 9"
    using assms by arith
  then show ?thesis
    by (elim disjE) (simp_all add: digit_char_def digit_val_def isWhiteSpace_def)
qed

lemma parseInt_two_digit_chars:
  assumes "a < 10" and "b < 10"
  shows "parseInt [digit_char a, digit_char b] = Some (int (10 * a + b))"
  using digit_char_facts [OF assms(1)] digit_char_facts [OF assms(2)]
  by (simp add: parseInt_def digits_value_def)

lemma digit_char_0: "digit_char 0 = CHR ''0''"
  by (simp add: digit_char_def)

lemma parseInt_padded_serial:
  assumes "0 \<le> k" and "k \<le> 99"
  shows "parseInt (padStart 2 CHR ''0'' (toString k)) = Some k"
proof (cases "k < 10")
  case True
  then have "padStart 2 CHR ''0'' (toString k) = [digit_char 0, digit_char (nat k)]"
    using assms by (simp add: toString_def toString_nat.simps padStart_def digit_char_0)
  moreover have "nat k < 10" using True assms by simp
  ultimately show ?thesis
    using parseInt_two_digit_chars [of 0 "nat k"] assms by simp
next
  case False
  then have d: "nat k div 10 < 10" "nat k mod 10 < 10" "\<not> nat k < 10" using assms by auto
  have "toString k = [digit_char (nat k div 10), digit_char (nat k mod 10)]"
    using assms d
    by (simp add: toString_def toString_nat.simps [of "nat k"] toString_nat.simps [of "nat k div 10"])
  then have "padStart 2 CHR ''0'' (toString k) = [digit_char (nat k div 10), digit_char (nat k mod 10)]"
    by (simp add: padStart_def)
  then show ?thesis
    using parseInt_two_digit_chars [OF d(1,2)] assms by simp
qed

lemma serial_member:
  assumes "b \<in> set store" and "bookingNo b = Some no" and "take (length p) no = p"
    and "parseInt (slice_last 2 no) = Some k"
  shows "k \<in> set (spec_todays_serials p store)"
  using assms
  by (force simp: spec_todays_serials_def map_filter_def)

lemma spec_max_serial_upper:
  "k \<in> set (spec_todays_serials p store) \<Longrightarrow> k \<le> spec_max_serial p store"
  by (simp add: spec_max_serial_def)

text \<open>Below 99 the generated number is carried by no stored booking.\<close>

lemma generateBookingNo_unused:
  assumes "spec_max_serial (datePrefix z t) store < 99" and "b \<in> set store"
  shows "bookingNo b \<noteq> Some (generateBookingNo z t store)"
proof
  let ?p = "datePrefix z t"
  let ?m = "spec_max_serial ?p store"
  let ?s = "padStart 2 CHR ''0'' (toString (?m + 1))"
  assume eq: "bookingNo b = Some (generateBookingNo z t store)"
  have range: "0 \<le> ?m" using spec_max_serial_range [of ?p store] by simp
  have gen: "generateBookingNo z t store = ?p @ ?s"
    by (simp add: generateBookingNo_def maxSerialNo_spec)
  have len: "length ?s = 2" using padStart_serial_length [OF range assms(1)] .
  have "slice_last 2 (?p @ ?s) = ?s" using len by (simp add: slice_last_def)
  moreover have "parseInt ?s = Some (?m + 1)"
    using parseInt_padded_serial [of "?m + 1"] range assms(1) by simp
  ultimately have "parseInt (slice_last 2 (?p @ ?s)) = Some (?m + 1)" by simp
  moreover have "take (length ?p) (?p @ ?s) = ?p" by simp
  ultimately have "?m + 1 \<in> set (spec_todays_serials ?p store)"
    using serial_member [OF assms(2), of "?p @ ?s" ?p "?m + 1"] eq gen by simp
  then have "?m + 1 \<le> ?m" by (rule spec_max_serial_upper)
  then show False by simp
qed

subsection \<open>The cancellation\<close>

lemma cancel_update_valid:
  "validate_update (no_fields\<lparr>statusID := Some 255, canceledBy := c, reason := r\<rparr>) = []"
  by (simp add: validate_update_def no_fields_def present_str_def min_num_def custom_def enum_num_def)

lemma cancel_set_fields:
  "set_fields (no_fields\<lparr>statusID := Some 255, canceledBy := Some who, reason := Some why\<rparr>) A =
     A\<lparr>statusID := Some 255, canceledBy := Some who, reason := Some why\<rparr>"
  by (simp add: set_fields_def set_path_def no_fields_def)

lemma find_bid: "find (\<lambda>b. bid b = a) store = Some A \<Longrightarrow> bid A = a \<and> A \<in> set store"
  using find_Some_member [of "\<lambda>b. bid b = a" store A] by simp

lemma truncate_keys [simp]:
  "bookingNo (booking_data.truncate r) = bookingNo r"
  "bookingID (booking_data.truncate r) = bookingID r"
  "serialNo (booking_data.truncate r) = serialNo r"
  by (simp_all add: booking_data.defs)

lemma duplicate_key_None:
  assumes "\<forall>b \<in> set s. bookingNo b \<noteq> bookingNo d"
    and "bookingID d \<noteq> None \<longrightarrow> (\<forall>b \<in> set s. bookingID b \<noteq> bookingID d)"
    and "serialNo d \<noteq> None \<longrightarrow> (\<forall>b \<in> set s. serialNo b \<noteq> serialNo d)"
  shows "duplicate_key s d = None"
  using assms by (auto simp: duplicate_key_def)

text \<open>Under the unique indexes the cancellation of a stored booking is written.\<close>

lemma updateStatusID_stored:
  assumes "find (\<lambda>b. bid b = a) store = Some A" and "unique_indexes store"
  shows "updateStatusID store a (Some who) (Some why) =
           Inr (A\<lparr>statusID := Some 255, canceledBy := Some who, reason := Some why\<rparr>,
                replace_by_id a
                  (A\<lparr>statusID := Some 255, canceledBy := Some who, reason := Some why\<rparr>) store)"
proof -
  let ?A' = "A\<lparr>statusID := Some 255, canceledBy := Some who, reason := Some why\<rparr>"
  have A: "bid A = a" "A \<in> set store" using find_bid [OF assms(1)] by simp_all
  have other: "\<And>b. b \<in> set (filter (\<lambda>x. bid x \<noteq> a) store) \<Longrightarrow>
      bookingNo b \<noteq> bookingNo A \<and>
      (bookingID A \<noteq> None \<longrightarrow> bookingID b \<noteq> bookingID A) \<and>
      (serialNo A \<noteq> None \<longrightarrow> serialNo b \<noteq> serialNo A)"
  proof -
    fix b assume "b \<in> set (filter (\<lambda>x. bid x \<noteq> a) store)"
    then have b: "b \<in> set store" "bid A \<noteq> bid b" using A(1) by auto
    have "bookingNo A \<noteq> bookingNo b \<and>
      (bookingID A \<noteq> None \<longrightarrow> bookingID A \<noteq> bookingID b) \<and>
      (serialNo A \<noteq> None \<longrightarrow> serialNo A \<noteq> serialNo b)"
      using assms(2) A(2) b unfolding unique_indexes_def by blast
    then show "bookingNo b \<noteq> bookingNo A \<and>
      (bookingID A \<noteq> None \<longrightarrow> bookingID b \<noteq> bookingID A) \<and>
      (serialNo A \<noteq> None \<longrightarrow> serialNo b \<noteq> serialNo A)" by metis
  qed
  have "duplicate_key (filter (\<lambda>x. bid x \<noteq> a) store) (booking_data.truncate ?A') = None"
    by (rule duplicate_key_None) (use other in simp_all)
  then show ?thesis
    using assms(1)
    by (simp add: updateStatusID_def findByIdAndUpdate_def cancel_update_valid cancel_set_fields)
qed

lemma distinct_bid_unique:
  assumes "distinct (map bid store)" and "A \<in> set store" and "b \<in> set store" and "bid b = bid A"
  shows "b = A"
proof -
  have "inj_on bid (set store)" using assms(1) by (simp add: distinct_map)
  then show ?thesis using assms(4,3,2) by (rule inj_onD)
qed

lemma replace_by_id_as_map:
  assumes "distinct (map bid store)" and "A \<in> set store" and "bid A = a"
  shows "replace_by_id a A' store = map (\<lambda>b. if b = A then A' else b) store"
  unfolding replace_by_id_def
proof (rule map_cong [OF refl])
  fix x assume x: "x \<in> set store"
  have "(bid x = a) = (x = A)"
  proof
    assume "bid x = a"
    then have "bid x = bid A" using assms(3) by simp
    then show "x = A" by (rule distinct_bid_unique [OF assms(1,2) x])
  next
    assume "x = A"
    then show "bid x = a" using assms(3) by simp
  qed
  then show "(if bid x = a then A' else x) = (if x = A then A' else x)" by simp
qed

lemma spec_todays_serials_map:
  assumes "\<And>b. bookingNo (g b) = bookingNo b"
  shows "spec_todays_serials p (map g store) = spec_todays_serials p store"
  by (simp add: spec_todays_serials_def map_filter_def filter_map comp_def assms)

lemma toString_nat_nonempty: "toString_nat n \<noteq> []"
  by (subst toString_nat.simps) simp

lemma generateBookingNo_nonempty: "generateBookingNo z t store \<noteq> []"
  by (simp add: generateBookingNo_def padStart_def toString_def toString_nat_nonempty)

subsection \<open>The insert of the new booking\<close>

lemma filter_failing_paths:
  "p \<noteq> q \<Longrightarrow> filter (\<lambda>x. x \<noteq> q) (required_str p v) = required_str p v"
  "p \<noteq> q \<Longrightarrow> filter (\<lambda>x. x \<noteq> q) (required_num p w) = required_num p w"
  "p \<noteq> q \<Longrightarrow> filter (\<lambda>x. x \<noteq> q) (min_num p m w) = min_num p m w"
  "p \<noteq> q \<Longrightarrow> filter (\<lambda>x. x \<noteq> q) (enum_num p allowed w) = enum_num p allowed w"
  "p \<noteq> q \<Longrightarrow> filter (\<lambda>x. x \<noteq> q) (custom p ok w) = custom p ok w"
  "filter (\<lambda>x. x \<noteq> q) (required_str q v) = []"
  by (simp_all add: required_str_def required_num_def min_num_def enum_num_def custom_def
        split: option.splits)

lemma validators_ignore_numbers:
  "checkOutDate_validator (d\<lparr>bookingNo := x, serialNo := s\<rparr>) = checkOutDate_validator d"
  "advancePayment_validator (d\<lparr>bookingNo := x, serialNo := s\<rparr>) = advancePayment_validator d"
  by (simp_all add: checkOutDate_validator_def advancePayment_validator_def fun_eq_iff)

lemma required_bookingNo_given: "no \<noteq> [] \<Longrightarrow> required_str p (Some no) = []"
  by (simp add: required_str_def truthy_str_def)

text \<open>
  With a number assigned, the failing paths of a document are those it had before,
  \<open>bookingNo\<close> apart.
\<close>

lemma validate_document_numbered:
  assumes "no \<noteq> []"
  shows "validate_document (d\<lparr>bookingNo := Some no, serialNo := s\<rparr>) =
           filter (\<lambda>x. x \<noteq> ''bookingNo'') (validate_document d)"
  unfolding validate_document_def filter_append
  by (simp add: filter_failing_paths validators_ignore_numbers
        required_bookingNo_given [OF assms])

lemma apply_defaults_numbered:
  "apply_defaults (d\<lparr>bookingNo := x, serialNo := s\<rparr>) =
     (apply_defaults d)\<lparr>bookingNo := x, serialNo := s\<rparr>"
  by (simp add: apply_defaults_def)

lemma validated_with_number:
  assumes "set (validate_document (apply_defaults d)) \<subseteq> {''bookingNo''}" and "no \<noteq> []"
  shows "validate_document (apply_defaults (d\<lparr>bookingNo := Some no, serialNo := s\<rparr>)) = []"
proof -
  have "filter (\<lambda>x. x \<noteq> ''bookingNo'') (validate_document (apply_defaults d)) = []"
    using assms(1) by (auto simp: filter_empty_conv)
  then show ?thesis
    by (simp only: apply_defaults_numbered validate_document_numbered [OF assms(2)])
qed

lemma duplicate_key_saved:
  "duplicate_key s (pre_save m (apply_defaults d)) = duplicate_key s d"
  by (simp add: duplicate_key_def pre_save_def apply_defaults_def)

lemma saved_fields [simp]:
  "hotelID (pre_save m (apply_defaults d)) = hotelID d"
  "roomNumberID (pre_save m (apply_defaults d)) = roomNumberID d"
  "roomCategoryID (pre_save m (apply_defaults d)) = roomCategoryID d"
  "checkInDate (pre_save m (apply_defaults d)) = checkInDate d"
  "checkOutDate (pre_save m (apply_defaults d)) = checkOutDate d"
  "bookingNo (pre_save m (apply_defaults d)) = bookingNo d"
  "serialNo (pre_save m (apply_defaults d)) = serialNo d"
  "totalBill (pre_save m (apply_defaults d)) = totalBill d"
  "advancePayment (pre_save m (apply_defaults d)) = advancePayment d"
  by (simp_all add: pre_save_def apply_defaults_def)

lemma generateSerialNo_last:
  "store \<noteq> [] \<Longrightarrow> serialNo (last store) = Some n \<Longrightarrow> generateSerialNo store = Num (n + 1)"
  by (cases store) (simp_all add: generateSerialNo_def)

subsection \<open>A refused rebooking\<close>

lemma cancel_X:
  "updateStatusID [booking_X] ''id-X'' (Some ''manager'') (Some ''guest request'') =
     Inr (cancelled_X, [cancelled_X])"
  by (simp add: updateStatusID_def findByIdAndUpdate_def cancel_update_valid cancel_set_fields
        duplicate_key_def replace_by_id_def cancelled_X_def booking_X_def)

lemma generateBookingNo_one_stored:
  "bookingNo b = Some ''24052901'' \<Longrightarrow>
     generateBookingNo 360 1717000060000 [b] = ''24052902''"
  by (simp add: generateBookingNo_def datePrefix_Z maxSerialNo_def scanSerial_def
        matches_prefix_def parse_defs str_defs)

lemma createBooking_V:
  "createBooking env_V [cancelled_X] request_V = Inr (booking_V, [cancelled_X, booking_V])"
  by (simp add: booking_eval env_V_def generateBookingNo_one_stored
        request_V_def request_X_def booking_V_def cancelled_X_def booking_X_def)

text \<open>
  C4, as stated, fails: creating a booking for the room and the dates of a cancelled
  booking does not always succeed. Booking X is cancelled and kept with status 255. A
  minute later request V books the same room for the same nights and is accepted, since
  the cancelled X no longer counts. Request X, sent again after that for the room and the
  dates of X, is refused with the conflict answer naming booking V. A request that names
  the number of the cancelled X as its \<open>reference\<close> is refused as well, by the unique
  index on \<open>bookingNo\<close>.
\<close>

theorem rebooking_refused_counterexample:
  "updateStatusID [booking_X] ''id-X'' (Some ''manager'') (Some ''guest request'') =
     Inr (cancelled_X, [cancelled_X]) \<and>
   createBooking env_V [cancelled_X] request_V = Inr (booking_V, [cancelled_X, booking_V]) \<and>
   createBooking env_W [cancelled_X, booking_V] request_X = Inl (Overlap booking_V) \<and>
   createBooking env_V [cancelled_X] (request_X\<lparr>reference := Some ''24052901''\<rparr>) =
     Inl (Caught 400 (DuplicateKey ''bookingNo''))"
proof -
  have late: "createBooking env_W [cancelled_X, booking_V] request_X = Inl (Overlap booking_V)"
    by (simp add: booking_eval env_W_def request_V_def request_X_def booking_V_def
          cancelled_X_def booking_X_def)
  have linked: "createBooking env_V [cancelled_X] (request_X\<lparr>reference := Some ''24052901''\<rparr>) =
      Inl (Caught 400 (DuplicateKey ''bookingNo''))"
    by (simp add: booking_eval env_V_def request_X_def cancelled_X_def booking_X_def)
  show ?thesis using cancel_X createBooking_V late linked by simp
qed

subsection \<open>Rebooking a cancelled stay\<close>

text \<open>
  C4, amended. Let the stored bookings have distinct ids and satisfy the unique indexes
  of the collection, and let booking A be stored under id \<open>a\<close> with both dates. Its
  cancellation with \<open>canceledBy\<close> and \<open>reason\<close> succeeds: the stored record is A with
  status 255 and these two values, every other path and every other record as before, so
  nothing is deleted. Let request B name A's hotel, room, category and dates, carry no
  \<open>reference\<close>, violate no schema rule other than the missing \<open>bookingNo\<close>, and carry
  no \<open>bookingID\<close> that is already stored. If every other active booking of A's room lies
  outside A's stay, if the most recently stored booking has a serial number whose
  successor is carried by no stored booking, and if the largest serial read from the
  day's booking numbers is below 99, then B passes the conflict check against the store
  after the cancellation and \<open>createBooking\<close> stores it, with A's room and dates, the
  generated booking number and the next serial number.
\<close>

theorem cancel_then_rebook:
  assumes ids: "distinct (map bid store)"
    and indexes: "unique_indexes store"
    and stored: "find (\<lambda>b. bid b = a) store = Some A"
    and stay: "checkInDate A = Some cin" "checkOutDate A = Some cout"
    and others: "\<forall>b \<in> set store.
          bid b \<noteq> a \<and> hotelID b = hotelID A \<and> roomNumberID b = roomNumberID A \<and>
          roomCategoryID b = roomCategoryID A \<and> statusID b \<noteq> Some 255 \<longrightarrow>
          (\<forall>ci co. checkInDate b = Some ci \<and> checkOutDate b = Some co \<longrightarrow>
                   co \<le> cin \<or> cout \<le> ci)"
    and same: "hotelID B = hotelID A" "roomNumberID B = roomNumberID A"
          "roomCategoryID B = roomCategoryID A"
          "checkInDate B = Some cin" "checkOutDate B = Some cout"
    and linked: "truthy_num (hotelID B)" "truthy_str (roomNumberID B)"
          "truthy_str (roomCategoryID B)"
    and body: "set (validate_document (apply_defaults B)) \<subseteq> {''bookingNo''}"
    and no_reference: "\<not> truthy_str (reference B)"
    and own_id: "bookingID B \<noteq> None \<longrightarrow> (\<forall>b \<in> set store. bookingID b \<noteq> bookingID B)"
    and serials: "serialNo (last store) = Some n" "\<forall>b \<in> set store. serialNo b \<noteq> Some (n + 1)"
    and day: "spec_max_serial (datePrefix (zone e) (clock e)) store < 99"
  shows "\<exists>A' store' B'.
           updateStatusID store a (Some who) (Some why) = Inr (A', store') \<and>
           A' = A\<lparr>statusID := Some 255, canceledBy := Some who, reason := Some why\<rparr> \<and>
           store' = replace_by_id a A' store \<and> length store' = length store \<and>
           A' \<in> set store' \<and>
           checkBookingOverlap store' (hotelID B) (roomNumberID B) (roomCategoryID B)
             cin cout None = None \<and>
           createBooking e store' B = Inr (B', store' @ [B']) \<and>
           hotelID B' = hotelID A \<and> roomNumberID B' = roomNumberID A \<and>
           roomCategoryID B' = roomCategoryID A \<and>
           checkInDate B' = checkInDate A \<and> checkOutDate B' = checkOutDate A \<and>
           bookingNo B' = Some (generateBookingNo (zone e) (clock e) store') \<and>
           serialNo B' = Some (n + 1)"
proof -
  let ?A' = "A\<lparr>statusID := Some 255, canceledBy := Some who, reason := Some why\<rparr>"
  let ?S = "replace_by_id a ?A' store"
  let ?g = "\<lambda>b. if b = A then ?A' else b"
  let ?p = "datePrefix (zone e) (clock e)"
  let ?G = "generateBookingNo (zone e) (clock e) ?S"
  have A: "bid A = a" "A \<in> set store" using find_bid [OF stored] by simp_all
  have cancel: "updateStatusID store a (Some who) (Some why) = Inr (?A', ?S)"
    by (rule updateStatusID_stored [OF stored indexes])
  have S: "?S = map ?g store" by (rule replace_by_id_as_map [OF ids A(2,1)])
  have keys: "\<And>b. bookingNo (?g b) = bookingNo b" "\<And>b. serialNo (?g b) = serialNo b"
    "\<And>b. bookingID (?g b) = bookingID b"
    by simp_all
  have ne: "store \<noteq> []" using A(2) by auto
  have len: "length ?S = length store" by (simp add: replace_by_id_def)
  have mem: "?A' \<in> set ?S" unfolding S using A(2) by (auto simp: image_iff)
  have nomatch: "\<And>b. b \<in> set ?S \<Longrightarrow>
      \<not> overlap_filter (hotelID B) (roomNumberID B) (roomCategoryID B) cin cout None b"
  proof -
    fix b assume "b \<in> set ?S"
    then obtain b0 where b0: "b0 \<in> set store" "b = (if bid b0 = a then ?A' else b0)"
      unfolding replace_by_id_def by auto
    show "\<not> overlap_filter (hotelID B) (roomNumberID B) (roomCategoryID B) cin cout None b"
    proof (cases "bid b0 = a")
      case True
      then have "statusID b = Some 255" using b0 by simp
      then show ?thesis by (simp add: overlap_filter_def)
    next
      case False
      then have "b = b0" using b0 by simp
      then show ?thesis
        using others b0(1) False same(1-3)
        by (fastforce simp: overlap_filter_def split: option.splits)
    qed
  qed
  have free: "checkBookingOverlap ?S (hotelID B) (roomNumberID B) (roomCategoryID B)
       cin cout None = None"
    unfolding checkBookingOverlap_def find_None_iff_no_match using nomatch by blast
  have "serialNo (last ?S) = Some n"
    unfolding S using ne serials(1) by (simp add: last_map keys(2))
  moreover have "?S \<noteq> []" using ne len by auto
  ultimately have serial: "generateSerialNo ?S = Num (n + 1)"
    by (rule generateSerialNo_last [rotated])
  have "spec_max_serial ?p ?S = spec_max_serial ?p store"
    unfolding S spec_max_serial_def by (simp only: spec_todays_serials_map [of ?g, OF keys(1)])
  then have day': "spec_max_serial ?p ?S < 99" using day by simp
  have assign: "assignBookingNo e ?S B = Some ?G"
    using no_reference by (simp add: assignBookingNo_def)
  let ?d = "B\<lparr>bookingNo := Some ?G, serialNo := Some (n + 1)\<rparr>"
  have fresh_no: "\<forall>b \<in> set ?S. bookingNo b \<noteq> bookingNo ?d"
    using generateBookingNo_unused [OF day'] by simp
  have fresh_serial: "\<forall>b \<in> set ?S. serialNo b \<noteq> serialNo ?d"
    unfolding S using serials(2) by (auto simp: keys(2))
  have fresh_id: "bookingID ?d \<noteq> None \<longrightarrow> (\<forall>b \<in> set ?S. bookingID b \<noteq> bookingID ?d)"
    unfolding S using own_id by (auto simp: keys(3))
  have dup: "duplicate_key ?S ?d = None"
    by (rule duplicate_key_None) (use fresh_no fresh_serial fresh_id in simp_all)
  have valid: "validate_document (apply_defaults ?d) = []"
    by (rule validated_with_number [OF body generateBookingNo_nonempty])
  let ?s = "pre_save (totalBill ?d \<noteq> None \<or> advancePayment ?d \<noteq> None) (apply_defaults ?d)"
  let ?B' = "new_booking (newId e) (clock e) ?s"
  have create: "Booking_create e ?S ?d = Inr (?B', ?S @ [?B'])"
    using valid dup by (simp add: Booking_create_def duplicate_key_saved)
  have made: "createBooking e ?S B = Inr (?B', ?S @ [?B'])"
    using linked same(4,5) free serial create assign by (simp add: createBooking_def)
  have fields: "hotelID ?B' = hotelID A \<and> roomNumberID ?B' = roomNumberID A \<and>
      roomCategoryID ?B' = roomCategoryID A \<and>
      checkInDate ?B' = checkInDate A \<and> checkOutDate ?B' = checkOutDate A \<and>
      bookingNo ?B' = Some ?G \<and> serialNo ?B' = Some (n + 1)"
    using same stay by simp
  show ?thesis
    using cancel len mem free made fields
    by (intro exI [of _ ?A'] exI [of _ ?S] exI [of _ ?B'] conjI) simp_all
qed

theorem cancel_then_rebook_witness:
  "updateStatusID [booking_X] ''id-X'' (Some ''manager'') (Some ''guest request'') =
     Inr (cancelled_X, [cancelled_X]) \<and>
   statusID cancelled_X = Some 255 \<and>
   (\<exists>B'. createBooking env_Z [cancelled_X] request_X = Inr (B', [cancelled_X, B']) \<and>
         checkInDate B' = checkInDate booking_X \<and> checkOutDate B' = checkOutDate booking_X \<and>
         serialNo B' = Some 2)"
proof -
  have ids: "distinct (map bid [booking_X])" by simp
  have indexes: "unique_indexes [booking_X]" by (simp add: unique_indexes_def)
  have stored: "find (\<lambda>b. bid b = ''id-X'') [booking_X] = Some booking_X"
    by (simp add: booking_X_def)
  have stay: "checkInDate booking_X = Some 1717200000000"
    "checkOutDate booking_X = Some 1717545600000"
    by (simp_all add: booking_X_def request_X_def)
  have others: "\<forall>b \<in> set [booking_X].
      bid b \<noteq> ''id-X'' \<and> hotelID b = hotelID booking_X \<and>
      roomNumberID b = roomNumberID booking_X \<and>
      roomCategoryID b = roomCategoryID booking_X \<and> statusID b \<noteq> Some 255 \<longrightarrow>
      (\<forall>ci co. checkInDate b = Some ci \<and> checkOutDate b = Some co \<longrightarrow>
               co \<le> 1717200000000 \<or> 1717545600000 \<le> ci)"
    by (simp add: booking_X_def)
  have same: "hotelID request_X = hotelID booking_X"
    "roomNumberID request_X = roomNumberID booking_X"
    "roomCategoryID request_X = roomCategoryID booking_X"
    "checkInDate request_X = Some 1717200000000"
    "checkOutDate request_X = Some 1717545600000"
    by (simp_all add: booking_X_def request_X_def)
  have linked: "truthy_num (hotelID request_X)" "truthy_str (roomNumberID request_X)"
    "truthy_str (roomCategoryID request_X)"
    by (simp_all add: request_X_def truthy_num_def truthy_str_def)
  have body: "set (validate_document (apply_defaults request_X)) \<subseteq> {''bookingNo''}"
    by (simp add: validate_document_def apply_defaults_def required_str_def required_num_def
          min_num_def enum_num_def custom_def truthy_str_def checkOutDate_validator_def
          advancePayment_validator_def request_X_def)
  have no_reference: "\<not> truthy_str (reference request_X)"
    by (simp add: truthy_str_def request_X_def)
  have own_id: "bookingID request_X \<noteq> None \<longrightarrow>
      (\<forall>b \<in> set [booking_X]. bookingID b \<noteq> bookingID request_X)"
    by (simp add: request_X_def)
  have serials: "serialNo (last [booking_X]) = Some 1"
    "\<forall>b \<in> set [booking_X]. serialNo b \<noteq> Some (1 + 1)"
    by (simp_all add: booking_X_def)
  have day: "spec_max_serial (datePrefix (zone env_Z) (clock env_Z)) [booking_X] < 99"
    by (simp add: env_Z_def datePrefix_Z spec_max_serial_def spec_todays_serials_def
          map_filter_simps parse_defs slice_last_def booking_X_def)
  have cancelled: "replace_by_id ''id-X''
      (booking_X\<lparr>statusID := Some 255, canceledBy := Some ''manager'',
         reason := Some ''guest request''\<rparr>) [booking_X] = [cancelled_X]"
    by (simp add: replace_by_id_def cancelled_X_def booking_X_def)
  have "\<exists>A' store' B'.
      updateStatusID [booking_X] ''id-X'' (Some ''manager'') (Some ''guest request'') =
        Inr (A', store') \<and>
      A' = booking_X\<lparr>statusID := Some 255, canceledBy := Some ''manager'',
             reason := Some ''guest request''\<rparr> \<and>
      store' = replace_by_id ''id-X'' A' [booking_X] \<and>
      createBooking env_Z store' request_X = Inr (B', store' @ [B']) \<and>
      checkInDate B' = checkInDate booking_X \<and> checkOutDate B' = checkOutDate booking_X \<and>
      serialNo B' = Some (1 + 1)"
    using cancel_then_rebook [OF ids indexes stored stay others same linked body no_reference
        own_id serials day, of "''manager''" "''guest request''"]
    by blast
  then have "\<exists>B'.
      updateStatusID [booking_X] ''id-X'' (Some ''manager'') (Some ''guest request'') =
        Inr (cancelled_X, [cancelled_X]) \<and>
      createBooking env_Z [cancelled_X] request_X = Inr (B', [cancelled_X] @ [B']) \<and>
      checkInDate B' = checkInDate booking_X \<and> checkOutDate B' = checkOutDate booking_X \<and>
      serialNo B' = Some (1 + 1)"
    unfolding cancelled cancelled_X_def [symmetric] by (simp add: cancelled cancelled_X_def)
  moreover have "statusID cancelled_X = Some 255" by (simp add: cancelled_X_def)
  ultimately show ?thesis by auto
qed

section \<open>The booking listings\<close>










section \<open>Room counters of the hotel aggregate\<close>

lemma foldl_add_lengths:
  "foldl (\<lambda>total c. total + int (length (f c))) a cs = a + int (length (concat (map f cs)))"
  by (induction cs arbitrary: a) simp_all

lemma calculatedTotalRooms_count:
  "calculatedTotalRooms h = int (length (concat (map roomNumbers (roomCategories h))))"
  by (simp add: calculatedTotalRooms_def foldl_add_lengths)

lemma calculatedAvailableRooms_count:
  "calculatedAvailableRooms h =
     int (length (filter (\<lambda>room. r_status room = ''available'')
                    (concat (map roomNumbers (roomCategories h)))))"
  using foldl_add_lengths
          [of "\<lambda>c. filter (\<lambda>room. r_status room = ''available'') (roomNumbers c)" 0
              "roomCategories h"]
  by (simp add: calculatedAvailableRooms_def filter_concat comp_def)

lemma pre_save_hotel_counts:
  "totalRooms (pre_save_hotel h) =
     int (length (concat (map roomNumbers (roomCategories (pre_save_hotel h))))) \<and>
   availableRooms (pre_save_hotel h) =
     int (length (filter (\<lambda>room. r_status room = ''available'')
                    (concat (map roomNumbers (roomCategories (pre_save_hotel h))))))"
  by (simp add: pre_save_hotel_def calculatedTotalRooms_count calculatedAvailableRooms_count)

lemma save_result:
  "save hs h = Inr (h', hs') \<Longrightarrow>
     h' = pre_save_hotel h \<and> hs' = map (\<lambda>x. if h_id x = h_id h then h' else x) hs"
  by (auto simp: save_def split: if_splits)

lemma Hotel_create_result:
  "Hotel_create hs h = Inr (h', hs') \<Longrightarrow> h' = pre_save_hotel h \<and> hs' = hs @ [h']"
  by (auto simp: Hotel_create_def split: if_splits)

lemma save_or_500_result:
  "save_or_500 m hs h = Inr (h', hs') \<Longrightarrow>
     h' = pre_save_hotel h \<and> hs' = map (\<lambda>x. if h_id x = h_id h then h' else x) hs"
  by (auto simp: save_or_500_def split: sum.splits dest: save_result)

lemma findHotel_member: "findHotel hs ref = Some h \<Longrightarrow> h \<in> set hs"
  by (cases ref) (auto simp: findHotel_def dest: find_Some_member)

lemma save_stored:
  assumes "save hs h = Inr (h', hs')" and "h0 \<in> set hs" and "h_id h = h_id h0"
  shows "h' = pre_save_hotel h \<and> h' \<in> set hs'"
proof -
  have r: "h' = pre_save_hotel h" "hs' = map (\<lambda>x. if h_id x = h_id h then h' else x) hs"
    using save_result [OF assms(1)] by simp_all
  have "(\<lambda>x. if h_id x = h_id h then h' else x) h0 \<in> set hs'"
    unfolding r(2) using assms(2) by (simp only: set_map image_eqI)
  then show ?thesis using r(1) assms(3) by simp
qed

lemma save_or_500_stored:
  assumes "save_or_500 m hs h = Inr (h', hs')" and "h0 \<in> set hs" and "h_id h = h_id h0"
  shows "h' = pre_save_hotel h \<and> h' \<in> set hs'"
proof -
  have "save hs h = Inr (h', hs')"
    using assms(1) by (auto simp: save_or_500_def split: sum.splits)
  then show ?thesis using assms(2,3) by (rule save_stored)
qed

text \<open>Every successful request ends in a save of some document, which is then stored.\<close>

lemma handle_saves:
  assumes "handle hs req = Inr (h', hs')"
  shows "(\<exists>h. h' = pre_save_hotel h) \<and> h' \<in> set hs'"
proof (cases req)
  case (CreateHotel i urls body)
  then show ?thesis using assms
    by (auto simp: createHotel_def split: sum.splits exn.splits dest: Hotel_create_result)
next
  case (UpdateHotel ref urls body)
  then obtain h0 where f: "findHotel hs ref = Some h0"
    and s: "save hs (assign_hotel urls body h0) = Inr (h', hs')"
    using assms by (auto simp: updateHotel_def split: option.splits sum.splits exn.splits)
  show ?thesis
    using save_stored [OF s findHotel_member [OF f]] by (auto simp: assign_hotel_def)
next
  case (AddCategory ref i urls body)
  then obtain h0 where f: "findHotel hs ref = Some h0"
    and s: "save_or_500 ''Failed to add category'' hs
              (h0\<lparr>roomCategories := roomCategories h0 @ [new_category i urls body]\<rparr>) =
            Inr (h', hs')"
    using assms by (auto simp: addCategory_def split: option.splits)
  show ?thesis using save_or_500_stored [OF s findHotel_member [OF f]] by auto
next
  case (UpdateCategory ref cid urls body)
  then obtain h0 where f: "findHotel hs ref = Some h0"
    and s: "save_or_500 ''Failed to update category'' hs
              (h0\<lparr>roomCategories := update_first (\<lambda>c. c_id c = cid)
                     (assign_category urls body) (roomCategories h0)\<rparr>) = Inr (h', hs')"
    using assms by (auto simp: updateCategory_def split: option.splits)
  show ?thesis using save_or_500_stored [OF s findHotel_member [OF f]] by auto
next
  case (DeleteCategory ref cid)
  then obtain h0 where f: "findHotel hs ref = Some h0"
    and s: "save_or_500 ''Failed to delete category'' hs
              (h0\<lparr>roomCategories := remove_first (\<lambda>c. c_id c = cid) (roomCategories h0)\<rparr>) =
            Inr (h', hs')"
    using assms by (auto simp: deleteCategory_def split: option.splits)
  show ?thesis using save_or_500_stored [OF s findHotel_member [OF f]] by auto
next
  case (AddRoom ref cid i urls body)
  then obtain h0 where f: "findHotel hs ref = Some h0"
    and s: "save_or_500 ''Failed to add room'' hs
              (h0\<lparr>roomCategories := update_first (\<lambda>c. c_id c = cid)
                     (\<lambda>c. c\<lparr>roomNumbers := roomNumbers c @ [new_room i urls body]\<rparr>)
                     (roomCategories h0)\<rparr>) = Inr (h', hs')"
    using assms by (auto simp: addRoom_def split: option.splits)
  show ?thesis using save_or_500_stored [OF s findHotel_member [OF f]] by auto
next
  case (UpdateRoom ref cid rid urls body)
  then obtain h0 where f: "findHotel hs ref = Some h0"
    and s: "save_or_500 ''Failed to update room'' hs
              (h0\<lparr>roomCategories := update_first (\<lambda>c. c_id c = cid)
                     (\<lambda>c. c\<lparr>roomNumbers := update_first (\<lambda>r. r_id r = rid)
                              (assign_room urls body) (roomNumbers c)\<rparr>)
                     (roomCategories h0)\<rparr>) = Inr (h', hs')"
    using assms by (auto simp: updateRoom_def split: option.splits)
  show ?thesis using save_or_500_stored [OF s findHotel_member [OF f]] by auto
next
  case (DeleteRoom ref cid rid)
  then obtain h0 where f: "findHotel hs ref = Some h0"
    and s: "save_or_500 ''Failed to delete room'' hs
              (h0\<lparr>roomCategories := update_first (\<lambda>c. c_id c = cid)
                     (\<lambda>c. c\<lparr>roomNumbers := remove_first (\<lambda>r. r_id r = rid) (roomNumbers c)\<rparr>)
                     (roomCategories h0)\<rparr>) = Inr (h', hs')"
    using assms by (auto simp: deleteRoom_def split: option.splits)
  show ?thesis using save_or_500_stored [OF s findHotel_member [OF f]] by auto
qed

text \<open>
  C3. Whenever an inventory request (hotel create or update, category add, update or
  delete, room add, update or delete) succeeds, the saved hotel document has
  \<open>totalRooms\<close> equal to the number of rooms across all its categories and
  \<open>availableRooms\<close> equal to the number of those rooms whose status is "available",
  whatever the request changed and whatever counters the request body carried; and that
  document is the one in the collection after the request.
\<close>

theorem counters_after_every_save:
  assumes "handle hs req = Inr (h', hs')"
  shows "h' \<in> set hs' \<and>
         totalRooms h' = int (length (concat (map roomNumbers (roomCategories h')))) \<and>
         availableRooms h' =
           int (length (filter (\<lambda>room. r_status room = ''available'')
                          (concat (map roomNumbers (roomCategories h')))))"
  using handle_saves [OF assms] pre_save_hotel_counts by blast

lemmas hotel_eval = createHotel_def updateHotel_def addCategory_def updateCategory_def
  deleteCategory_def addRoom_def updateRoom_def deleteRoom_def findHotel_def save_def
  save_or_500_def Hotel_create_def pre_save_hotel_def calculatedTotalRooms_def
  calculatedAvailableRooms_def validate_hotel_def validate_category_def validate_room_def
  enum_str_def required_str_def min_num_def truthy_str_def assign_hotel_def
  assign_category_def assign_room_def new_category_def new_room_def images_on_create_def
  images_on_update_def set_path_def or_default_def getNextHotelID_def

lemmas hotel_examples = grand_def deluxe_def suite_def room_101_def room_102_def
  no_hotel_data_def no_category_data_def no_room_data_def

text \<open>
  A request that sends \<open>totalRooms: 40\<close> for hotel "Grand", and one that adds room 201
  to its empty category "Suite".
\<close>

theorem counters_after_every_save_witness:
  "handle [grand] (UpdateHotel (HotelNumber 1) [] (no_hotel_data\<lparr>hd_totalRooms := Some 40\<rparr>)) =
     Inr (grand, [grand]) \<and>
   totalRooms grand = 2 \<and> availableRooms grand = 1 \<and>
   (\<exists>h' hs'. handle [grand] (AddRoom (HotelNumber 1) ''cat-suite'' ''room-201'' []
                 (no_room_data\<lparr>rd_name := Some ''201''\<rparr>)) = Inr (h', hs') \<and>
              totalRooms h' = 3 \<and> availableRooms h' = 2)"
proof -
  have e: "handle [grand] (UpdateHotel (HotelNumber 1) []
             (no_hotel_data\<lparr>hd_totalRooms := Some 40\<rparr>)) = Inr (grand, [grand])"
    by (simp add: hotel_eval hotel_examples)
  have c: "totalRooms grand = 2 \<and> availableRooms grand = 1"
    using counters_after_every_save [OF e] by (simp add: hotel_examples)
  obtain h' hs' where a: "handle [grand] (AddRoom (HotelNumber 1) ''cat-suite'' ''room-201'' []
      (no_room_data\<lparr>rd_name := Some ''201''\<rparr>)) = Inr (h', hs')"
    and r: "concat (map roomNumbers (roomCategories h')) =
      [room_101, room_102, new_room ''room-201'' [] (no_room_data\<lparr>rd_name := Some ''201''\<rparr>)]"
    by (simp add: hotel_eval hotel_examples)
  have "totalRooms h' = 3 \<and> availableRooms h' = 2"
    using counters_after_every_save [OF a] unfolding r
    by (simp add: new_room_def or_default_def hotel_examples)
  then show ?thesis using e c a by blast
qed

section \<open>Name uniqueness in the inventory tree\<close>

lemma find_Some_if_member: "x \<in> set xs \<Longrightarrow> P x \<Longrightarrow> \<exists>y. find P xs = Some y"
  by (cases "find P xs") (auto simp: find_None_iff_no_match)

text \<open>The two add operations do refuse an existing name, before any write.\<close>

lemma addCategory_rejects_existing_name:
  assumes "findHotel hs ref = Some h" and "c \<in> set (roomCategories h)"
    and "c_name c = cd_name categoryData"
  shows "addCategory hs ref i urls categoryData =
           Inl (Failure 409 ''Category with this name already exists in this hotel'')"
  using find_Some_if_member [of c "roomCategories h" "\<lambda>cat. c_name cat = cd_name categoryData"]
        assms
  by (auto simp: addCategory_def)

lemma addRoom_rejects_existing_name:
  assumes "findHotel hs ref = Some h"
    and "find (\<lambda>c. c_id c = categoryId) (roomCategories h) = Some c"
    and "r \<in> set (roomNumbers c)" and "r_name r = rd_name roomData"
  shows "addRoom hs ref categoryId i urls roomData =
           Inl (Failure 409 ''Room with this name already exists in this category'')"
  using find_Some_if_member [of r "roomNumbers c" "\<lambda>room. r_name room = rd_name roomData"]
        assms
  by (auto simp: addRoom_def)

text \<open>
  C6. The two update operations make no such check. Renaming category "Suite" of hotel
  "Grand" to "Deluxe", the name of its other category, is saved: the hotel then has two
  categories named "Deluxe". Renaming room 102 of category "Deluxe" to "101" is saved
  likewise: the category then has two rooms named "101".
\<close>

theorem update_accepts_existing_name:
  "updateCategory [grand] (HotelNumber 1) ''cat-suite'' []
       (no_category_data\<lparr>cd_name := Some ''Deluxe''\<rparr>) =
     Inr (grand\<lparr>roomCategories := [deluxe, suite\<lparr>c_name := Some ''Deluxe''\<rparr>]\<rparr>,
          [grand\<lparr>roomCategories := [deluxe, suite\<lparr>c_name := Some ''Deluxe''\<rparr>]\<rparr>]) \<and>
   updateRoom [grand] (HotelNumber 1) ''cat-deluxe'' ''room-102'' []
       (no_room_data\<lparr>rd_name := Some ''101''\<rparr>) =
     Inr (grand\<lparr>roomCategories :=
                 [deluxe\<lparr>roomNumbers := [room_101, room_102\<lparr>r_name := Some ''101''\<rparr>]\<rparr>, suite]\<rparr>,
          [grand\<lparr>roomCategories :=
                 [deluxe\<lparr>roomNumbers := [room_101, room_102\<lparr>r_name := Some ''101''\<rparr>]\<rparr>, suite]\<rparr>])"
  by (simp add: hotel_eval hotel_examples)

theorem update_accepts_existing_name_witness:
  "(case updateCategory [grand] (HotelNumber 1) ''cat-suite'' []
           (no_category_data\<lparr>cd_name := Some ''Deluxe''\<rparr>) of
      Inl _ \<Rightarrow> False
    | Inr (h', _) \<Rightarrow> map c_name (roomCategories h') = [Some ''Deluxe'', Some ''Deluxe''])"
  using update_accepts_existing_name by (simp add: hotel_examples)

section \<open>Image lists\<close>

lemma find_update_first:
  "find P xs = Some x \<Longrightarrow> P (f x) \<Longrightarrow> find P (update_first P f xs) = Some (f x)"
  by (induction xs) (auto split: if_splits)

lemma images_on_update_cases:
  "(urls \<noteq> [] \<longrightarrow> images_on_update e urls sent = take 3 (e @ urls)) \<and>
   (urls = [] \<and> sent = Some (ImageArray xs) \<longrightarrow> images_on_update e urls sent = take 3 xs) \<and>
   (urls = [] \<and> sent = Some (ImageString s) \<longrightarrow> images_on_update e urls sent = [s]) \<and>
   (urls \<noteq> [] \<or> sent \<noteq> None \<longrightarrow> length (images_on_update e urls sent) \<le> 3)"
  by (auto simp: images_on_update_def split: option.splits images_field.splits)

lemma updateHotel_images:
  assumes "findHotel hs ref = Some h" and "updateHotel hs ref urls body = Inr (h', hs')"
  shows "h_images h' = images_on_update (h_images h) urls (hd_images body)"
  using assms
  by (auto simp: updateHotel_def assign_hotel_def pre_save_hotel_def
        split: sum.splits exn.splits dest!: save_result)

lemma updateCategory_images:
  assumes "findHotel hs ref = Some h"
    and "find (\<lambda>c. c_id c = cid) (roomCategories h) = Some c"
    and "updateCategory hs ref cid urls body = Inr (h', hs')"
  shows "\<exists>c'. find (\<lambda>c. c_id c = cid) (roomCategories h') = Some c' \<and>
              c_images c' = images_on_update (c_images c) urls (cd_images body)"
proof -
  have id: "c_id c = cid" using find_Some_member [OF assms(2)] by simp
  have "h' = pre_save_hotel (h\<lparr>roomCategories := update_first (\<lambda>c. c_id c = cid)
      (assign_category urls body) (roomCategories h)\<rparr>)"
    using assms by (auto simp: updateCategory_def dest: save_or_500_result)
  then have "roomCategories h' = update_first (\<lambda>c. c_id c = cid)
      (assign_category urls body) (roomCategories h)"
    by (simp add: pre_save_hotel_def)
  then have "find (\<lambda>c. c_id c = cid) (roomCategories h') = Some (assign_category urls body c)"
    using find_update_first [OF assms(2), of "assign_category urls body"] id
    by (simp add: assign_category_def)
  then show ?thesis by (simp add: assign_category_def)
qed

lemma updateRoom_images:
  assumes "findHotel hs ref = Some h"
    and "find (\<lambda>c. c_id c = cid) (roomCategories h) = Some c"
    and "find (\<lambda>r. r_id r = rid) (roomNumbers c) = Some r"
    and "updateRoom hs ref cid rid urls body = Inr (h', hs')"
  shows "\<exists>c' r'. find (\<lambda>c. c_id c = cid) (roomCategories h') = Some c' \<and>
                 find (\<lambda>r. r_id r = rid) (roomNumbers c') = Some r' \<and>
                 r_images r' = images_on_update (r_images r) urls (rd_images body)"
proof -
  let ?g = "\<lambda>c. c\<lparr>roomNumbers := update_first (\<lambda>r. r_id r = rid)
                    (assign_room urls body) (roomNumbers c)\<rparr>"
  have cid: "c_id c = cid" using find_Some_member [OF assms(2)] by simp
  have rid: "r_id r = rid" using find_Some_member [OF assms(3)] by simp
  have "h' = pre_save_hotel (h\<lparr>roomCategories :=
      update_first (\<lambda>c. c_id c = cid) ?g (roomCategories h)\<rparr>)"
    using assms by (auto simp: updateRoom_def dest: save_or_500_result)
  then have "roomCategories h' = update_first (\<lambda>c. c_id c = cid) ?g (roomCategories h)"
    by (simp add: pre_save_hotel_def)
  then have c': "find (\<lambda>c. c_id c = cid) (roomCategories h') = Some (?g c)"
    using find_update_first [OF assms(2), of ?g] cid by simp
  have r': "find (\<lambda>r. r_id r = rid) (roomNumbers (?g c)) = Some (assign_room urls body r)"
    using find_update_first [OF assms(3), of "assign_room urls body"] rid
    by (simp add: assign_room_def)
  show ?thesis using c' r' by (simp add: assign_room_def)
qed

text \<open>
  The create handlers (\<open>createHotel\<close>, \<open>addCategory\<close>, \<open>addRoom\<close>) store the URLs
  of the body as they are sent: here a new room keeps four images.
\<close>

lemma addRoom_keeps_every_body_image:
  "\<exists>h' hs' c'. addRoom [grand] (HotelNumber 1) ''cat-suite'' ''room-201'' []
        (no_room_data\<lparr>rd_name := Some ''201'',
           rd_images := Some (ImageArray [''a'', ''b'', ''c'', ''d''])\<rparr>) = Inr (h', hs') \<and>
      find (\<lambda>c. c_id c = ''cat-suite'') (roomCategories h') = Some c' \<and>
      map r_images (roomNumbers c') = [[''a'', ''b'', ''c'', ''d'']]"
  by (simp add: hotel_eval hotel_examples)

text \<open>
  C7, as stated, fails: hotel "Grand" has the image \<open>img-1\<close>; an update that sends
  \<open>images: ["img-2"]\<close> in the body stores \<open>["img-2"]\<close>, not the merged list
  \<open>["img-1", "img-2"]\<close>.
\<close>

theorem updateHotel_body_images_counterexample:
  "updateHotel [grand] (HotelNumber 1) []
       (no_hotel_data\<lparr>hd_images := Some (ImageArray [''img-2''])\<rparr>) =
     Inr (grand\<lparr>h_images := [''img-2'']\<rparr>, [grand\<lparr>h_images := [''img-2'']\<rparr>]) \<and>
   h_images (grand\<lparr>h_images := [''img-2'']\<rparr>) \<noteq> take 3 (h_images grand @ [''img-2''])"
  by (simp add: hotel_eval hotel_examples)

text \<open>
  C7, amended, for the update of a hotel, a category or a room that succeeds. When files
  are uploaded, their URLs are appended to the existing images and the list is cut to
  its first 3. When no file is uploaded and the body sends an array of URLs, the stored
  list is the first 3 of the array, in place of the existing images; a single URL string
  is stored as the one-element list. In each of these cases the stored list has at most
  3 images. Without images in the request the list is unchanged.
\<close>

theorem images_after_update:
  "(\<forall>h h' hs'. findHotel hs ref = Some h \<and> updateHotel hs ref urls hotelBody = Inr (h', hs') \<longrightarrow>
      h_images h' = images_on_update (h_images h) urls (hd_images hotelBody)) \<and>
   (\<forall>h c h' hs'. findHotel hs ref = Some h \<and>
        find (\<lambda>c. c_id c = cid) (roomCategories h) = Some c \<and>
        updateCategory hs ref cid urls categoryBody = Inr (h', hs') \<longrightarrow>
      (\<exists>c'. find (\<lambda>c. c_id c = cid) (roomCategories h') = Some c' \<and>
            c_images c' = images_on_update (c_images c) urls (cd_images categoryBody))) \<and>
   (\<forall>h c r h' hs'. findHotel hs ref = Some h \<and>
        find (\<lambda>c. c_id c = cid) (roomCategories h) = Some c \<and>
        find (\<lambda>r. r_id r = rid) (roomNumbers c) = Some r \<and>
        updateRoom hs ref cid rid urls roomBody = Inr (h', hs') \<longrightarrow>
      (\<exists>c' r'. find (\<lambda>c. c_id c = cid) (roomCategories h') = Some c' \<and>
               find (\<lambda>r. r_id r = rid) (roomNumbers c') = Some r' \<and>
               r_images r' = images_on_update (r_images r) urls (rd_images roomBody))) \<and>
   (urls \<noteq> [] \<longrightarrow> images_on_update existing urls sent = take 3 (existing @ urls)) \<and>
   (urls = [] \<and> sent = Some (ImageArray xs) \<longrightarrow>
      images_on_update existing urls sent = take 3 xs) \<and>
   (urls = [] \<and> sent = Some (ImageString s) \<longrightarrow> images_on_update existing urls sent = [s]) \<and>
   (urls = [] \<and> sent = None \<longrightarrow> images_on_update existing urls sent = existing) \<and>
   (urls \<noteq> [] \<or> sent \<noteq> None \<longrightarrow> length (images_on_update existing urls sent) \<le> 3)"
proof (intro conjI)
  show "\<forall>h h' hs'. findHotel hs ref = Some h \<and>
      updateHotel hs ref urls hotelBody = Inr (h', hs') \<longrightarrow>
      h_images h' = images_on_update (h_images h) urls (hd_images hotelBody)"
    using updateHotel_images by blast
next
  show "\<forall>h c h' hs'. findHotel hs ref = Some h \<and>
        find (\<lambda>c. c_id c = cid) (roomCategories h) = Some c \<and>
        updateCategory hs ref cid urls categoryBody = Inr (h', hs') \<longrightarrow>
      (\<exists>c'. find (\<lambda>c. c_id c = cid) (roomCategories h') = Some c' \<and>
            c_images c' = images_on_update (c_images c) urls (cd_images categoryBody))"
    using updateCategory_images by blast
next
  show "\<forall>h c r h' hs'. findHotel hs ref = Some h \<and>
        find (\<lambda>c. c_id c = cid) (roomCategories h) = Some c \<and>
        find (\<lambda>r. r_id r = rid) (roomNumbers c) = Some r \<and>
        updateRoom hs ref cid rid urls roomBody = Inr (h', hs') \<longrightarrow>
      (\<exists>c' r'. find (\<lambda>c. c_id c = cid) (roomCategories h') = Some c' \<and>
               find (\<lambda>r. r_id r = rid) (roomNumbers c') = Some r' \<and>
               r_images r' = images_on_update (r_images r) urls (rd_images roomBody))"
    using updateRoom_images by blast
next
  show "urls \<noteq> [] \<longrightarrow> images_on_update existing urls sent = take 3 (existing @ urls)"
    using images_on_update_cases by blast
next
  show "urls = [] \<and> sent = Some (ImageArray xs) \<longrightarrow>
      images_on_update existing urls sent = take 3 xs"
    using images_on_update_cases by blast
next
  show "urls = [] \<and> sent = Some (ImageString s) \<longrightarrow>
      images_on_update existing urls sent = [s]"
    using images_on_update_cases by blast
next
  show "urls = [] \<and> sent = None \<longrightarrow> images_on_update existing urls sent = existing"
    by (simp add: images_on_update_def)
next
  show "urls \<noteq> [] \<or> sent \<noteq> None \<longrightarrow> length (images_on_update existing urls sent) \<le> 3"
    using images_on_update_cases by blast
qed

text \<open>Two files uploaded for category "Deluxe", which already has two images.\<close>

theorem images_after_update_witness:
  "(\<exists>h' hs' c'. updateCategory [grand] (HotelNumber 1) ''cat-deluxe'' [''up-1'', ''up-2'']
                   no_category_data = Inr (h', hs') \<and>
        find (\<lambda>c. c_id c = ''cat-deluxe'') (roomCategories h') = Some c' \<and>
        c_images c' = [''img-d1'', ''img-d2'', ''up-1'']) \<and>
   images_on_update [''img-1''] [] (Some (ImageArray [''a'', ''b'', ''c'', ''d''])) =
     [''a'', ''b'', ''c'']"
proof -
  have f: "findHotel [grand] (HotelNumber 1) = Some grand"
    by (simp add: findHotel_def grand_def)
  have c: "find (\<lambda>c. c_id c = ''cat-deluxe'') (roomCategories grand) = Some deluxe"
    by (simp add: hotel_examples)
  obtain h' hs' where u: "updateCategory [grand] (HotelNumber 1) ''cat-deluxe''
      [''up-1'', ''up-2''] no_category_data = Inr (h', hs')"
    by (simp add: hotel_eval hotel_examples)
  have t: "\<forall>h c h' hs'. findHotel [grand] (HotelNumber 1) = Some h \<and>
        find (\<lambda>c. c_id c = ''cat-deluxe'') (roomCategories h) = Some c \<and>
        updateCategory [grand] (HotelNumber 1) ''cat-deluxe'' [''up-1'', ''up-2'']
          no_category_data = Inr (h', hs') \<longrightarrow>
      (\<exists>c'. find (\<lambda>c. c_id c = ''cat-deluxe'') (roomCategories h') = Some c' \<and>
            c_images c' = images_on_update (c_images c) [''up-1'', ''up-2'']
                            (cd_images no_category_data))"
    by (rule images_after_update [where hs = "[grand]" and ref = "HotelNumber 1"
          and urls = "[''up-1'', ''up-2'']" and cid = "''cat-deluxe''"
          and categoryBody = no_category_data, THEN conjunct2, THEN conjunct1])
  have "\<exists>c'. find (\<lambda>c. c_id c = ''cat-deluxe'') (roomCategories h') = Some c' \<and>
            c_images c' = images_on_update (c_images deluxe) [''up-1'', ''up-2'']
                            (cd_images no_category_data)"
    using t f c u by blast
  then have "\<exists>c'. find (\<lambda>c. c_id c = ''cat-deluxe'') (roomCategories h') = Some c' \<and>
            c_images c' = [''img-d1'', ''img-d2'', ''up-1'']"
    by (simp add: images_on_update_def deluxe_def)
  moreover have "images_on_update [''img-1''] [] (Some (ImageArray [''a'', ''b'', ''c'', ''d''])) =
     [''a'', ''b'', ''c'']"
    by (simp add: images_on_update_def)
  ultimately show ?thesis using u by blast
qed

section \<open>The order number's date\<close>

text \<open>
  The calendar fields of a time depend on its day number only. The local midnight that
  the hook prints in UTC lies, for a zone east of UTC, in the UTC day before the local
  day; for UTC and the zones west of it, in the UTC day with the local day's number.
\<close>

lemma calendar_fields_of_Day:
  assumes "Day a = Day b"
  shows "YearFromTime a = YearFromTime b \<and> MonthFromTime a = MonthFromTime b \<and>
         DateFromTime a = DateFromTime b"
proof -
  have e: "dayOfEra a = dayOfEra b" unfolding dayOfEra_def assms by (rule refl)
  have y: "yearOfEra a = yearOfEra b" unfolding yearOfEra_def e by (rule refl)
  have d: "dayOfMarchYear a = dayOfMarchYear b" unfolding dayOfMarchYear_def e y by (rule refl)
  have m: "marchMonth a = marchMonth b" unfolding marchMonth_def d by (rule refl)
  have mo: "MonthFromTime a = MonthFromTime b" unfolding MonthFromTime_def m by (rule refl)
  have da: "DateFromTime a = DateFromTime b" unfolding DateFromTime_def d m by (rule refl)
  have ye: "YearFromTime a = YearFromTime b" unfolding YearFromTime_def y mo assms by (rule refl)
  show ?thesis using ye mo da by (intro conjI)
qed

lemma Day_local_midnight_east:
  assumes "0 < z" and "z \<le> 1440"
  shows "Day (setHours0 z t) = Day (LocalTime z t) - 1"
proof -
  define q where "q = (t + z * 60000) div 86400000"
  define r where "r = (t + z * 60000) mod 86400000"
  have L: "t + z * 60000 = 86400000 * q + r" and r: "0 \<le> r" "r < 86400000"
    by (simp_all add: q_def r_def)
  have "t - r = 86400000 * (q - 1) + (86400000 - z * 60000)"
    using L by (simp add: algebra_simps)
  moreover have "0 \<le> 86400000 - z * 60000" "86400000 - z * 60000 < 86400000"
    using assms by simp_all
  ultimately have "(t - r) div 86400000 = q - 1"
    by (simp add: div_pos_pos_trivial)
  then show ?thesis
    by (simp add: Day_def setHours0_def TimeWithinDay_def LocalTime_def msPerDay_def q_def r_def)
qed

lemma Day_local_midnight_west:
  assumes "z \<le> 0" and "- 1440 < z"
  shows "Day (setHours0 z t) = Day (LocalTime z t)"
proof -
  define q where "q = (t + z * 60000) div 86400000"
  define r where "r = (t + z * 60000) mod 86400000"
  have L: "t + z * 60000 = 86400000 * q + r" and r: "0 \<le> r" "r < 86400000"
    by (simp_all add: q_def r_def)
  have "t - r = 86400000 * q + (- z * 60000)"
    using L by (simp add: algebra_simps)
  moreover have "0 \<le> - z * 60000" "- z * 60000 < 86400000"
    using assms by simp_all
  ultimately have "(t - r) div 86400000 = q"
    by (simp add: div_pos_pos_trivial)
  then show ?thesis
    by (simp add: Day_def setHours0_def TimeWithinDay_def LocalTime_def msPerDay_def q_def r_def)
qed

lemma local_midnight_fields_west:
  assumes "z \<le> 0" and "- 1440 < z"
  shows "YearFromTime (setHours0 z t) = YearFromTime (LocalTime z t) \<and>
         MonthFromTime (setHours0 z t) = MonthFromTime (LocalTime z t) \<and>
         DateFromTime (setHours0 z t) = DateFromTime (LocalTime z t)"
  using calendar_fields_of_Day [OF Day_local_midnight_west [OF assms]] .

lemma local_midnight_example: "setHours0 360 1704168000000 = 1704132000000"
  by (simp add: date_defs)

lemma toISOString_clock_example: "toISOString 1704168000000 = ''2024-01-02T04:00:00.000Z''"
  by (simp add: toISOString_def date_defs str_defs)

lemma toISOString_midnight_example: "toISOString 1704132000000 = ''2024-01-01T18:00:00.000Z''"
  by (simp add: toISOString_def date_defs str_defs)

lemma spec_today_example: "spec_today_YYYYMMDD 360 1704168000000 = ''20240102''"
  by (simp add: spec_today_YYYYMMDD_def date_defs str_defs)

text \<open>
  C9. On a server six hours east of UTC, at 2024-01-02 10:00 local time (04:00 UTC), with
  no order created yet that day, the hook numbers a new order ORD-20240101-0001: the
  date is that of the day before, because \<open>today\<close> is the local midnight and
  \<open>toISOString\<close> prints it in UTC. Today's date is 20240102. The fallback, which
  prints the current time, gives ORD-20240102-0000 at the same moment, and on a server in
  UTC the hook gives ORD-20240102-0001.
\<close>

theorem order_number_dated_the_day_before:
  "orderNumber (order_pre_save 360 1704168000000 True [] new_order) =
     Some ''ORD-20240101-0001'' \<and>
   spec_today_YYYYMMDD 360 1704168000000 = ''20240102'' \<and>
   orderNumber (order_pre_save 360 1704168000000 False [] new_order) =
     Some ''ORD-20240102-0000'' \<and>
   orderNumber (order_pre_save 0 1704168000000 True [] new_order) =
     Some ''ORD-20240102-0001''"
proof (intro conjI)
  show "orderNumber (order_pre_save 360 1704168000000 True [] new_order) =
      Some ''ORD-20240101-0001''"
    by (simp add: order_pre_save_def countDocuments_def truthy_str_def new_order_def
          local_midnight_example dateStr_def toISOString_midnight_example str_defs)
next
  show "spec_today_YYYYMMDD 360 1704168000000 = ''20240102''"
    by (rule spec_today_example)
next
  show "orderNumber (order_pre_save 360 1704168000000 False [] new_order) =
      Some ''ORD-20240102-0000''"
    by (simp add: order_pre_save_def countDocuments_def truthy_str_def new_order_def
          dateStr_def toISOString_clock_example str_defs)
next
  have m: "setHours0 0 1704168000000 = 1704153600000" by (simp add: date_defs)
  have i: "toISOString 1704153600000 = ''2024-01-02T00:00:00.000Z''"
    by (simp add: toISOString_def date_defs str_defs)
  show "orderNumber (order_pre_save 0 1704168000000 True [] new_order) =
      Some ''ORD-20240102-0001''"
    by (simp add: order_pre_save_def countDocuments_def truthy_str_def new_order_def
          m dateStr_def i str_defs)
qed

theorem order_number_dated_the_day_before_witness:
  "orderNumber (order_pre_save 360 1704168000000 True [] new_order) \<noteq>
     Some (''ORD-'' @ spec_today_YYYYMMDD 360 1704168000000 @ ''-0001'')"
  using order_number_dated_the_day_before by simp

end
